theory Spec2Isabelle
  imports Complex_Main
begin

section \<open>OpenOil3D: class-level tables\<close>

text \<open>
  Python exceptions that the modelled code can raise. \<open>MissingEnvironmentData\<close> carries the
  name of the variable it reports; it and \<open>InvalidSeedingParameters\<close> are the errors that the
  specification names for the aggregator and for seeding.
\<close>

datatype py_error =
    NameError string
  | AttributeError string
  | IndexError
  | ValueError
  | MissingEnvironmentData string
  | InvalidSeedingParameters

text \<open>\<open>OpenOil3D.required_variables\<close>, in the order of the source list.\<close>

definition required_variables :: "string list" where
  "required_variables =
    [''x_sea_water_velocity'', ''y_sea_water_velocity'',
     ''sea_surface_wave_significant_height'',
     ''sea_surface_wave_stokes_drift_x_velocity'',
     ''sea_surface_wave_stokes_drift_y_velocity'',
     ''sea_surface_wave_period_at_variance_spectral_density_maximum'',
     ''sea_surface_wave_mean_period_from_variance_spectral_density_second_frequency_moment'',
     ''sea_ice_area_fraction'',
     ''x_wind'', ''y_wind'', ''land_binary_mask'',
     ''sea_floor_depth_below_sea_level'',
     ''ocean_vertical_diffusivity'',
     ''sea_water_temperature'',
     ''sea_water_salinity'',
     ''upward_sea_water_velocity'']"

text \<open>\<open>OpenOil3D.required_profiles\<close> and \<open>required_profiles_z_range\<close>.\<close>

definition required_profiles :: "string list" where
  "required_profiles =
    [''sea_water_temperature'',
     ''sea_water_salinity'',
     ''ocean_vertical_diffusivity'']"

definition required_profiles_z_range :: "int list" where
  "required_profiles_z_range = [-120, 0]"

text \<open>
  \<open>OpenOil3D.fallback_values\<close>: the dict literal as an association list in source order,
  looked up with \<open>map_of\<close>. The values are Python ints and floats; both are read as reals
  (\<open>0.02\<close> is \<open>2/100\<close>).
\<close>

definition fallback_items :: "(string \<times> real) list" where
  "fallback_items =
    [(''x_sea_water_velocity'', 0),
     (''y_sea_water_velocity'', 0),
     (''sea_surface_wave_significant_height'', 0),
     (''sea_surface_wave_stokes_drift_x_velocity'', 0),
     (''sea_surface_wave_stokes_drift_y_velocity'', 0),
     (''sea_surface_wave_period_at_variance_spectral_density_maximum'', 0),
     (''sea_surface_wave_mean_period_from_variance_spectral_density_second_frequency_moment'', 0),
     (''sea_ice_area_fraction'', 0),
     (''x_wind'', 0), (''y_wind'', 0),
     (''sea_floor_depth_below_sea_level'', 10000),
     (''ocean_vertical_diffusivity'', 2 / 100),
     (''sea_water_temperature'', 10),
     (''sea_water_salinity'', 34),
     (''upward_sea_water_velocity'', 0)]"

definition fallback_values :: "string \<rightharpoonup> real" where
  "fallback_values = map_of fallback_items"

section \<open>Environment aggregator\<close>

text \<open>
  A query point and a reader registration record. Time is a real number of seconds; an
  open end of the validity interval is \<open>None\<close>. The reader's own interpolation is opaque:
  \<open>rget\<close> yields \<open>None\<close> when the reader raises during the query.
\<close>

record point =
  lon :: real
  lat :: real
  depth :: real

record reader =
  xmin :: real
  xmax :: real
  ymin :: real
  ymax :: real
  start_time :: "real option"
  end_time :: "real option"
  rvariables :: "string list"
  extrapolates :: bool
  rget :: "string \<Rightarrow> point \<Rightarrow> real \<Rightarrow> real option"

definition in_bbox :: "reader \<Rightarrow> point \<Rightarrow> bool" where
  "in_bbox r p = (xmin r \<le> lon p \<and> lon p \<le> xmax r \<and> ymin r \<le> lat p \<and> lat p \<le> ymax r)"

definition in_interval :: "reader \<Rightarrow> real \<Rightarrow> bool" where
  "in_interval r t =
    ((case start_time r of None \<Rightarrow> True | Some a \<Rightarrow> a \<le> t) \<and>
     (case end_time r of None \<Rightarrow> True | Some b \<Rightarrow> t \<le> b))"

definition clamp_time :: "reader \<Rightarrow> real \<Rightarrow> real" where
  "clamp_time r t =
    (let t1 = (case start_time r of None \<Rightarrow> t | Some a \<Rightarrow> max a t)
     in (case end_time r of None \<Rightarrow> t1 | Some b \<Rightarrow> min b t1))"

definition covers :: "reader \<Rightarrow> string \<Rightarrow> point \<Rightarrow> real \<Rightarrow> bool" where
  "covers r v p t =
    (in_bbox r p \<and> (in_interval r t \<or> extrapolates r) \<and> v \<in> set (rvariables r))"

text \<open>
  Modelled from the spec: the aggregator's lookup (section 4.1), whose code is not among the
  source files. Readers are tried in priority order (the order of the list); the first
  covering reader that answers supplies the value, a reader that raises is passed over; a
  point no reader supplies receives the fallback constant, and without one the lookup fails
  with \<open>MissingEnvironmentData\<close> naming the variable.
\<close>

fun first_reader_value :: "reader list \<Rightarrow> string \<Rightarrow> point \<Rightarrow> real \<Rightarrow> real option" where
  "first_reader_value [] v p t = None"
| "first_reader_value (r # rs) v p t =
    (if covers r v p t then
       (case rget r v p (if extrapolates r then clamp_time r t else t) of
          Some x \<Rightarrow> Some x
        | None \<Rightarrow> first_reader_value rs v p t)
     else first_reader_value rs v p t)"

definition get_point ::
  "reader list \<Rightarrow> (string \<rightharpoonup> real) \<Rightarrow> string \<Rightarrow> point \<Rightarrow> real \<Rightarrow> py_error + real" where
  "get_point readers fallback v p t =
    (case first_reader_value readers v p t of
       Some x \<Rightarrow> Inr x
     | None \<Rightarrow>
        (case fallback v of
           Some c \<Rightarrow> Inr c
         | None \<Rightarrow> Inl (MissingEnvironmentData v)))"

fun get_points ::
  "reader list \<Rightarrow> (string \<rightharpoonup> real) \<Rightarrow> string \<Rightarrow> point list \<Rightarrow> real \<Rightarrow> py_error + real list" where
  "get_points readers fallback v [] t = Inr []"
| "get_points readers fallback v (p # ps) t =
    (case get_point readers fallback v p t of
       Inl e \<Rightarrow> Inl e
     | Inr x \<Rightarrow>
        (case get_points readers fallback v ps t of
           Inl e \<Rightarrow> Inl e
         | Inr xs \<Rightarrow> Inr (x # xs)))"

fun get_env ::
  "reader list \<Rightarrow> (string \<rightharpoonup> real) \<Rightarrow> string list \<Rightarrow> point list \<Rightarrow> real \<Rightarrow>
     py_error + (string \<times> real list) list" where
  "get_env readers fallback [] ps t = Inr []"
| "get_env readers fallback (v # vs) ps t =
    (case get_points readers fallback v ps t of
       Inl e \<Rightarrow> Inl e
     | Inr xs \<Rightarrow>
        (case get_env readers fallback vs ps t of
           Inl e \<Rightarrow> Inl e
         | Inr rest \<Rightarrow> Inr ((v, xs) # rest)))"


section \<open>NumPy operations used by the model\<close>

text \<open>
  Arrays of floats are lists of reals: the model has no rounding, no infinity and no NaN.
  A method call either returns a value or raises; when it raises, the object keeps the
  mutations made before the raise, so both outcomes carry the state of the object.
\<close>

datatype ('v, 's) outcome = Returned 'v 's | Raised py_error 's

fun state_of :: "('v, 's) outcome \<Rightarrow> 's" where
  "state_of (Returned v s) = s"
| "state_of (Raised e s) = s"

text \<open>
  An elementwise binary operation on two one-dimensional arrays: equal lengths combine
  index by index, a length-one operand is stretched, anything else fails with
  \<open>ValueError\<close> (operands could not be broadcast together).
\<close>

definition broadcast2 :: "('a \<Rightarrow> 'b \<Rightarrow> 'c) \<Rightarrow> 'a list \<Rightarrow> 'b list \<Rightarrow> py_error + 'c list" where
  "broadcast2 f xs ys =
    (if length xs = length ys then Inr (map2 f xs ys)
     else if length xs = 1 then Inr (map (f (hd xs)) ys)
     else if length ys = 1 then Inr (map (\<lambda>x. f x (hd ys)) xs)
     else Inl ValueError)"

definition bindE :: "py_error + 'a \<Rightarrow> ('a \<Rightarrow> py_error + 'b) \<Rightarrow> py_error + 'b" where
  "bindE m f = (case m of Inl e \<Rightarrow> Inl e | Inr x \<Rightarrow> f x)"

text \<open>
  \<open>a[mask] = v\<close> with a boolean mask: the mask must have the length of \<open>a\<close>, otherwise
  \<open>IndexError\<close>. \<open>a[mask] = b[mask]\<close> needs the mask to fit both arrays.
\<close>

definition put_mask :: "'a list \<Rightarrow> bool list \<Rightarrow> 'a \<Rightarrow> 'a list" where
  "put_mask a msk v = map2 (\<lambda>x b. if b then v else x) a msk"

definition mask_set :: "'a list \<Rightarrow> bool list \<Rightarrow> 'a \<Rightarrow> py_error + 'a list" where
  "mask_set a msk v = (if length msk = length a then Inr (put_mask a msk v) else Inl IndexError)"

definition mask_copy :: "'a list \<Rightarrow> bool list \<Rightarrow> 'a list \<Rightarrow> py_error + 'a list" where
  "mask_copy a msk b =
    (if length msk \<noteq> length b then Inl IndexError
     else if length msk \<noteq> length a then Inl IndexError
     else Inr (map (\<lambda>(x, m, y). if m then y else x) (zip a (zip msk b))))"

text \<open>
  A float that may have left the reals. Inputs are real numbers; a quotient with a zero
  denominator is an infinity or NaN in NumPy (with a warning, not an exception), and the
  products and quotients that follow keep it so. The model has one zero, the positive one.
  A comparison with NaN is false.
\<close>

datatype npfloat = Finite real | PosInf | NegInf | NaN

fun np_mul :: "npfloat \<Rightarrow> npfloat \<Rightarrow> npfloat" where
  "np_mul NaN y = NaN"
| "np_mul x NaN = NaN"
| "np_mul (Finite a) (Finite b) = Finite (a * b)"
| "np_mul (Finite a) PosInf = (if a = 0 then NaN else if 0 < a then PosInf else NegInf)"
| "np_mul (Finite a) NegInf = (if a = 0 then NaN else if 0 < a then NegInf else PosInf)"
| "np_mul PosInf (Finite b) = (if b = 0 then NaN else if 0 < b then PosInf else NegInf)"
| "np_mul NegInf (Finite b) = (if b = 0 then NaN else if 0 < b then NegInf else PosInf)"
| "np_mul PosInf PosInf = PosInf"
| "np_mul PosInf NegInf = NegInf"
| "np_mul NegInf PosInf = NegInf"
| "np_mul NegInf NegInf = PosInf"

fun np_div :: "npfloat \<Rightarrow> npfloat \<Rightarrow> npfloat" where
  "np_div NaN y = NaN"
| "np_div x NaN = NaN"
| "np_div (Finite a) (Finite b) =
     (if b \<noteq> 0 then Finite (a / b)
      else if a = 0 then NaN else if 0 < a then PosInf else NegInf)"
| "np_div (Finite a) PosInf = Finite 0"
| "np_div (Finite a) NegInf = Finite 0"
| "np_div PosInf (Finite b) = (if 0 \<le> b then PosInf else NegInf)"
| "np_div NegInf (Finite b) = (if 0 \<le> b then NegInf else PosInf)"
| "np_div PosInf PosInf = NaN"
| "np_div PosInf NegInf = NaN"
| "np_div NegInf PosInf = NaN"
| "np_div NegInf NegInf = NaN"

fun np_less :: "real \<Rightarrow> npfloat \<Rightarrow> bool" where
  "np_less r (Finite q) = (r < q)"
| "np_less r PosInf = True"
| "np_less r NegInf = False"
| "np_less r NaN = False"

text \<open>
  The global random generator of \<open>numpy.random\<close> is an explicit state of type \<open>'g\<close>. Its
  two primitives are parameters: one uniform draw from [0, 1), and one draw from a
  discrete distribution given by values and probabilities. Arrays of draws are taken one
  after the other, in index order.
\<close>

record 'g np_random =
  random_sample :: "'g \<Rightarrow> real \<times> 'g"
  choice_sample :: "real list \<Rightarrow> real list \<Rightarrow> 'g \<Rightarrow> real \<times> 'g"

fun draws :: "('g \<Rightarrow> real \<times> 'g) \<Rightarrow> nat \<Rightarrow> 'g \<Rightarrow> real list \<times> 'g" where
  "draws f 0 g = ([], g)"
| "draws f (Suc n) g =
    (case f g of (x, g1) \<Rightarrow> (case draws f n g1 of (xs, g2) \<Rightarrow> (x # xs, g2)))"

definition np_random_uniform :: "'g np_random \<Rightarrow> real \<Rightarrow> real \<Rightarrow> nat \<Rightarrow> 'g \<Rightarrow> real list \<times> 'g" where
  "np_random_uniform R low high n g =
    (case draws (random_sample R) n g of
       (us, g') \<Rightarrow> (map (\<lambda>u. low + (high - low) * u) us, g'))"

definition np_random_choice ::
  "'g np_random \<Rightarrow> real list \<Rightarrow> nat \<Rightarrow> real list \<Rightarrow> 'g \<Rightarrow> real list \<times> 'g" where
  "np_random_choice R a n p g = draws (choice_sample R a p) n g"

definition linspace :: "real \<Rightarrow> real \<Rightarrow> nat \<Rightarrow> real list" where
  "linspace a b n = map (\<lambda>i. a + real i * ((b - a) / real (n - 1))) [0..<n]"

text \<open>
  \<open>x ** 0.5\<close> on floats: the square root for a base that is not negative, NaN otherwise.
  The real power \<open>powr\<close> agrees with the square root on bases that are not negative and
  promises nothing about negative ones.
\<close>

definition pow_half :: "real \<Rightarrow> real" where
  "pow_half x = x powr (1 / 2)"


section \<open>The simulation object\<close>

text \<open>
  The element arrays of \<open>Oil3D\<close> that the module reads or writes, the two environment
  arrays it reads, and the configuration options it looks up with \<open>get_config\<close> (one
  field per option, typed as the configuration specification types them).
\<close>

record elements =
  z :: "real list"
  diameter :: "real list"
  density :: "real list"
  entrainment_length_scale :: "real list"
  terminal_velocity :: "real list"

record environment =
  sea_water_temperature :: "real list"
  sea_water_salinity :: "real list"

record config =
  processes_turbulentmixing :: bool
  processes_verticaladvection :: bool
  turbulentmixing_timestep :: real
  turbulentmixing_verticalresolution :: real
  droplet_diameter_min_wavebreaking :: real
  droplet_diameter_max_wavebreaking :: real
  droplet_size_exponent :: real
  droplet_diameter_min_subsea :: real
  droplet_diameter_max_subsea :: real

text \<open>
  The instance attributes. An attribute that is only created by a method
  (\<open>keep_droplet_diameter\<close> by \<open>seed_elements\<close>, the entrainment probability and the
  pre-drawn diameters by \<open>prepare_vertical_mixing\<close>, the droplet spectrum by
  \<open>get_wave_breaking_droplet_diameter\<close>) is \<open>None\<close> until then; reading it then raises
  \<open>AttributeError\<close>.
\<close>

record 'g openoil3d =
  elements :: elements
  environment :: environment
  config :: config
  keep_droplet_diameter :: "bool option"
  oil_entrainment_probability :: "npfloat list option"
  droplet_diamenter_if_entrained :: "real list option"
  droplet_spectrum_diameter :: "real list option"
  droplet_spectrum_pdf :: "real list option"
  rng :: 'g

section \<open>Surface interaction\<close>

text \<open>\<open>OpenOil3D.surface_interaction\<close>; the arguments \<open>time_step_seconds\<close> and \<open>alpha\<close> are unused.\<close>

definition surface_interaction ::
  "'g np_random \<Rightarrow> 'g openoil3d \<Rightarrow> (unit, 'g openoil3d) outcome" where
  "surface_interaction R self =
    (let surface = map (\<lambda>x. 0 \<le> x) (z (elements self));
         z1 = put_mask (z (elements self)) surface 0;
         drawn = np_random_uniform R 0 1 (length (z (elements self))) (rng self);
         random_number = fst drawn;
         self1 = self\<lparr>elements := (elements self)\<lparr>z := z1\<rparr>, rng := snd drawn\<rparr>
     in case oil_entrainment_probability self1 of
          None \<Rightarrow> Raised (AttributeError ''oil_entrainment_probability'') self1
        | Some prob \<Rightarrow>
           (case bindE (broadcast2 np_less random_number prob)
                       (\<lambda>below. broadcast2 (\<lambda>s b. s \<and> b) surface below) of
              Inl e \<Rightarrow> Raised e self1
            | Inr entrained \<Rightarrow>
               (case mask_set z1 entrained
                       (- turbulentmixing_verticalresolution (config self1) / 2) of
                  Inl e \<Rightarrow> Raised e self1
                | Inr z2 \<Rightarrow>
                   (let self2 = self1\<lparr>elements := (elements self1)\<lparr>z := z2\<rparr>\<rparr>
                    in case keep_droplet_diameter self2 of
                         None \<Rightarrow> Raised (AttributeError ''keep_droplet_diameter'') self2
                       | Some keep \<Rightarrow>
                          if keep = False then
                            (case droplet_diamenter_if_entrained self2 of
                               None \<Rightarrow>
                                 Raised (AttributeError ''droplet_diamenter_if_entrained'') self2
                             | Some d \<Rightarrow>
                                (case mask_copy (diameter (elements self2)) entrained d of
                                   Inl e \<Rightarrow> Raised e self2
                                 | Inr d2 \<Rightarrow>
                                     Returned ()
                                       (self2\<lparr>elements := (elements self2)\<lparr>diameter := d2\<rparr>\<rparr>)))
                          else Returned () self2))))"

text \<open>\<open>OpenOil3D.resurface_elements\<close>; the argument \<open>minimum_depth\<close> is unused.\<close>

definition resurface_elements :: "'g openoil3d \<Rightarrow> 'g openoil3d" where
  "resurface_elements self =
    (let surface = filter (\<lambda>i. 0 \<le> z (elements self) ! i) [0..<length (z (elements self))]
     in self\<lparr>elements := (elements self)\<lparr>z := fold (\<lambda>i a. a[i := 0]) surface (z (elements self))\<rparr>\<rparr>)"


section \<open>Entrainment probability and droplet sizes\<close>

text \<open>
  The wave quantities come from methods inherited from \<open>OpenOil\<close>, whose code is not part
  of the module; they are parameters, each giving an array for the current object.
\<close>

record 'g wave_methods =
  wave_period :: "'g openoil3d \<Rightarrow> real list"
  wave_damping_coefficient :: "'g openoil3d \<Rightarrow> real list"
  significant_wave_height :: "'g openoil3d \<Rightarrow> real list"

text \<open>
  \<open>OpenOil3D.oil_wave_entrainment_rate\<close>. A wave period or an entrainment length scale
  of zero gives a rate that is infinite or NaN.
\<close>

definition oil_wave_entrainment_rate ::
  "'g wave_methods \<Rightarrow> 'g openoil3d \<Rightarrow> py_error + npfloat list" where
  "oil_wave_entrainment_rate W self =
    (let kb = 4 / 10;
         omega = map (\<lambda>T. np_div (Finite (2 * pi)) (Finite T)) (wave_period W self);
         gamma = map Finite (wave_damping_coefficient W self);
         alpha = 15 / 10;
         Low = entrainment_length_scale (elements self)
     in bindE (broadcast2 np_mul (map (np_mul (Finite kb)) omega) gamma) (\<lambda>a.
        bindE (broadcast2 np_mul a (map Finite (significant_wave_height W self))) (\<lambda>b.
        broadcast2 np_div b (map (\<lambda>l. Finite (16 * alpha * l)) Low))))"

text \<open>
  \<open>OpenOil3D.get_wave_breaking_droplet_diameter\<close>. The spectrum is generated on the first
  call (\<open>hasattr\<close> is false) and kept; the diameters are then drawn from it.
\<close>

definition get_wave_breaking_droplet_diameter ::
  "'g np_random \<Rightarrow> nat \<Rightarrow> 'g openoil3d \<Rightarrow> (real list, 'g openoil3d) outcome" where
  "get_wave_breaking_droplet_diameter R number self =
    (let self1 =
          (if droplet_spectrum_pdf self = None then
             (let s = droplet_size_exponent (config self);
                  dmax = droplet_diameter_max_wavebreaking (config self);
                  dmin = droplet_diameter_min_wavebreaking (config self);
                  diameters = linspace dmin dmax 1000000;
                  spectrum = map (\<lambda>d. d powr s) diameters
              in self\<lparr>droplet_spectrum_diameter := Some diameters,
                      droplet_spectrum_pdf := Some (map (\<lambda>x. x / sum_list spectrum) spectrum)\<rparr>)
           else self)
     in case droplet_spectrum_diameter self1 of
          None \<Rightarrow> Raised (AttributeError ''droplet_spectrum_diameter'') self1
        | Some diameters \<Rightarrow>
           (case droplet_spectrum_pdf self1 of
              None \<Rightarrow> Raised (AttributeError ''droplet_spectrum_pdf'') self1
            | Some pdf \<Rightarrow>
               (let drawn = np_random_choice R diameters number pdf (rng self1)
                in Returned (fst drawn) (self1\<lparr>rng := snd drawn\<rparr>))))"

text \<open>
  \<open>OpenOil3D.prepare_vertical_mixing\<close>. \<open>num_elements_active()\<close> is the length of the
  element arrays.
\<close>

definition prepare_vertical_mixing ::
  "'g np_random \<Rightarrow> 'g wave_methods \<Rightarrow> 'g openoil3d \<Rightarrow> (unit, 'g openoil3d) outcome" where
  "prepare_vertical_mixing R W self =
    (case oil_wave_entrainment_rate W self of
       Inl e \<Rightarrow> Raised e self
     | Inr rate \<Rightarrow>
        (let self1 = self\<lparr>oil_entrainment_probability :=
                Some (map (\<lambda>x. np_mul x (Finite (turbulentmixing_timestep (config self)))) rate)\<rparr>
         in case get_wave_breaking_droplet_diameter R (length (z (elements self1))) self1 of
              Raised e self2 \<Rightarrow> Raised e self2
            | Returned d self2 \<Rightarrow>
                Returned () (self2\<lparr>droplet_diamenter_if_entrained := Some d\<rparr>)))"

section \<open>Seeding\<close>

text \<open>
  The keyword arguments that \<open>OpenOil3D.seed_elements\<close> inspects. \<open>z\<close> is the string
  \<open>'seafloor'\<close> or numbers (a scalar is an array of length one); a key that is absent is
  \<open>None\<close>. The seeding of the parent class is a parameter.
\<close>

datatype zarg = ZSeafloor | ZArray "real list"

record seed_kwargs =
  kw_number :: "nat option"
  kw_diameter :: "real list option"
  kw_z :: "zarg option"

definition seed_elements ::
  "'g np_random \<Rightarrow> (seed_kwargs \<Rightarrow> 'g openoil3d \<Rightarrow> (unit, 'g openoil3d) outcome) \<Rightarrow>
     seed_kwargs \<Rightarrow> 'g openoil3d \<Rightarrow> (unit, 'g openoil3d) outcome" where
  "seed_elements R super_seed_elements kwargs self =
    (let number = (case kw_number kwargs of None \<Rightarrow> 1 | Some k \<Rightarrow> k);
         self1 = self\<lparr>keep_droplet_diameter := Some (kw_diameter kwargs \<noteq> None)\<rparr>;
         kwargs1 = (case kw_z kwargs of
                      None \<Rightarrow> kwargs\<lparr>kw_z := Some (ZArray [0])\<rparr>
                    | Some v \<Rightarrow> kwargs);
         z0 = (case kw_z kwargs1 of
                 Some ZSeafloor \<Rightarrow> replicate number (- 1)
               | Some (ZArray a) \<Rightarrow> a
               | None \<Rightarrow> []);
         z1 = (if length z0 = 1 then map (\<lambda>one. hd z0 * one) (replicate number 1) else z0);
         subsea = map (\<lambda>x. x < 0) z1
     in if 0 < length (filter (\<lambda>b. b) subsea) \<and> kw_diameter kwargs1 = None then
          (let sub_dmin = droplet_diameter_min_subsea (config self1);
               sub_dmax = droplet_diameter_max_subsea (config self1);
               drawn = np_random_uniform R sub_dmin sub_dmax number (rng self1)
           in super_seed_elements (kwargs1\<lparr>kw_diameter := Some (fst drawn)\<rparr>)
                (self1\<lparr>rng := snd drawn\<rparr>))
        else super_seed_elements kwargs1 self1)"

text \<open>
  Modelled from the spec: the scheduling of seeded elements by the parent class (sections
  4.2 and 6), whose code is not among the source files. \<open>count\<close> new elements are added
  with the given attribute values, a scalar being broadcast to all of them and a sequence
  needing the length \<open>count\<close>; otherwise the seeding fails with
  \<open>InvalidSeedingParameters\<close> and adds nothing. An attribute that is not given takes the
  default of the element type (in \<open>Oil3D\<close>: diameter 1e-5, entrainment length scale 0.1).
  The depth that \<open>'seafloor'\<close> stands for and the density of the oil are parameters.
\<close>

definition attribute_values :: "nat \<Rightarrow> real \<Rightarrow> real list option \<Rightarrow> py_error + real list" where
  "attribute_values count dflt given =
    (case given of
       None \<Rightarrow> Inr (replicate count dflt)
     | Some xs \<Rightarrow>
        if length xs = 1 then Inr (replicate count (hd xs))
        else if length xs = count then Inr xs
        else Inl InvalidSeedingParameters)"

definition schedule_elements ::
  "real \<Rightarrow> real \<Rightarrow> seed_kwargs \<Rightarrow> 'g openoil3d \<Rightarrow> (unit, 'g openoil3d) outcome" where
  "schedule_elements floor_depth oil_density kwargs self =
    (let count = (case kw_number kwargs of None \<Rightarrow> 1 | Some k \<Rightarrow> k);
         z_given = (case kw_z kwargs of
                      None \<Rightarrow> None
                    | Some ZSeafloor \<Rightarrow> Some [floor_depth]
                    | Some (ZArray a) \<Rightarrow> Some a)
     in case bindE (attribute_values count 0 z_given) (\<lambda>zs.
             bindE (attribute_values count (1 / 100000) (kw_diameter kwargs)) (\<lambda>ds.
             Inr (zs, ds))) of
          Inl e \<Rightarrow> Raised e self
        | Inr (zs, ds) \<Rightarrow>
            Returned ()
              (self\<lparr>elements :=
                 \<lparr>z = z (elements self) @ zs,
                  diameter = diameter (elements self) @ ds,
                  density = density (elements self) @ replicate count oil_density,
                  entrainment_length_scale =
                    entrainment_length_scale (elements self) @ replicate count (1 / 10),
                  terminal_velocity = terminal_velocity (elements self) @ replicate count 0\<rparr>\<rparr>))"


section \<open>Terminal velocity\<close>

text \<open>\<open>OpenOil3D.particle_radius\<close>.\<close>

definition particle_radius :: "'g openoil3d \<Rightarrow> real list" where
  "particle_radius self = map (\<lambda>d. d / 2) (diameter (elements self))"

text \<open>
  A two-dimensional array of profiles: \<open>shape0\<close> depth levels by \<open>shape1\<close> elements.
  \<open>P[rows, range(P.shape[1])]\<close> pairs the row indices with the column numbers (which must
  broadcast) and reads one cell per pair; a negative row index counts from the end, a row
  index out of range raises \<open>IndexError\<close>.
\<close>

record profiles =
  shape0 :: nat
  shape1 :: nat
  cell :: "nat \<Rightarrow> nat \<Rightarrow> real"

definition fancy_index :: "profiles \<Rightarrow> int list \<Rightarrow> py_error + real list" where
  "fancy_index P rows =
    (case broadcast2 (\<lambda>i j. (i, j)) rows [0..<shape1 P] of
       Inl e \<Rightarrow> Inl IndexError
     | Inr ijs \<Rightarrow>
        if list_all (\<lambda>(i, j). - int (shape0 P) \<le> i \<and> i < int (shape0 P)) ijs
        then Inr (map (\<lambda>(i, j). cell P (nat (if i < 0 then i + int (shape0 P) else i)) j) ijs)
        else Inl IndexError)"

text \<open>
  The preparation of the interpolation (the first \<open>if\<close> of \<open>update_terminal_velocity\<close>):
  nothing when no profile is passed; otherwise the upper and lower level indices and the
  weight of the upper level. Without \<open>z_index\<close> the code reads \<open>Tprofiles.shape\<close> and then
  calls \<open>interp1d\<close>, a name the module never imports.
\<close>

definition prepare_interpolation ::
  "profiles option \<Rightarrow> profiles option \<Rightarrow> (real list \<Rightarrow> real list) option \<Rightarrow> 'g openoil3d \<Rightarrow>
     py_error + (int list \<times> int list \<times> real list) option" where
  "prepare_interpolation Tprofiles Sprofiles z_index self =
    (if \<not> (Tprofiles = None \<and> Sprofiles = None) then
       (case z_index of
          None \<Rightarrow>
           (case Tprofiles of
              None \<Rightarrow> Inl (AttributeError ''shape'')
            | Some T \<Rightarrow> Inl (NameError ''interp1d''))
        | Some f \<Rightarrow>
           (let zi = f (map (\<lambda>x. - x) (z (elements self)));
                upper = map (\<lambda>x. max \<lfloor>x\<rfloor> 0) zi
            in case Tprofiles of
                 None \<Rightarrow> Inl (AttributeError ''shape'')
               | Some T \<Rightarrow>
                  (let lower = map (\<lambda>u. min (u + 1) (int (shape0 T) - 1)) upper
                   in bindE (broadcast2 (\<lambda>x u. x - real_of_int u) zi upper) (\<lambda>d.
                      Inr (Some (upper, lower, map (\<lambda>x. 1 - x) d))))))
     else Inr None)"

text \<open>
  Temperature or salinity at the elements: from the environment when no profile is
  passed, otherwise interpolated between the two levels. A profile without prepared
  indices would read the unbound local \<open>upper\<close>.
\<close>

definition interpolate_profile ::
  "profiles option \<Rightarrow> real list \<Rightarrow> (int list \<times> int list \<times> real list) option \<Rightarrow>
     py_error + real list" where
  "interpolate_profile prof from_reader interp =
    (case prof of
       None \<Rightarrow> Inr from_reader
     | Some P \<Rightarrow>
        (case interp of
           None \<Rightarrow> Inl (NameError ''upper'')
         | Some (upper, lower, weight_upper) \<Rightarrow>
             bindE (fancy_index P upper) (\<lambda>a.
             bindE (broadcast2 (\<lambda>a b. a * b) a weight_upper) (\<lambda>aw.
             bindE (fancy_index P lower) (\<lambda>b.
             bindE (broadcast2 (\<lambda>a b. a * b) b (map (\<lambda>w. 1 - w) weight_upper)) (\<lambda>bw.
             broadcast2 (\<lambda>a b. a + b) aw bw))))))"

text \<open>\<open>W[idx] = W2[idx]\<close> with an array of indices, as \<open>np.where\<close> returns it.\<close>

definition index_copy :: "real list \<Rightarrow> nat list \<Rightarrow> real list \<Rightarrow> py_error + real list" where
  "index_copy a idx b =
    (if list_all (\<lambda>i. i < length b \<and> i < length a) idx
     then Inr (fold (\<lambda>i a'. a'[i := b ! i]) idx a)
     else Inl IndexError)"

text \<open>
  The velocity formula of \<open>update_terminal_velocity\<close> (from \<open>rho_oil\<close> to the assignment
  of the high Reynolds number values), for the droplet sizes \<open>r\<close>, the oil densities and
  the temperature and salinity at the elements. The density of sea water is a method
  inherited from the parent class and taken as a parameter, applied element by element.
\<close>

definition terminal_velocities ::
  "(real \<Rightarrow> real \<Rightarrow> real) \<Rightarrow> real list \<Rightarrow> real list \<Rightarrow> real list \<Rightarrow> real list \<Rightarrow>
     py_error + real list" where
  "terminal_velocities sea_water_density r rho_oil T0 S0 =
    (let g = 981 / 100 in
     bindE (broadcast2 sea_water_density T0 S0) (\<lambda>rho_water.
     bindE (broadcast2 (\<lambda>a b. a - b)
              (map (\<lambda>t. 17915 / 10000 - 538 / 10000 * t + 7 / 1000 * t ^ 2) T0)
              (map (\<lambda>s. 23 / 10000 * s) S0)) (\<lambda>m.
     let my_w = map (\<lambda>x. 1 / 1000 * x) m in
     bindE (broadcast2 (\<lambda>a b. a / b) my_w rho_water) (\<lambda>ny_w.
     bindE (broadcast2 (\<lambda>a b. a / b) rho_oil rho_water) (\<lambda>rhopr.
     bindE (broadcast2 (\<lambda>a b. a / b)
              (map (\<lambda>p. 2 * g * (1 - p)) rhopr) (map (\<lambda>n. 9 * n) ny_w)) (\<lambda>kw.
     bindE (broadcast2 (\<lambda>a b. a * b) kw (map (\<lambda>x. x ^ 2) r)) (\<lambda>W.
     bindE (broadcast2 (\<lambda>a b. a * b) (map (\<lambda>x. 2 * x) r) W) (\<lambda>rW.
     bindE (broadcast2 (\<lambda>a b. a / b) rW ny_w) (\<lambda>Re.
     let highRe = filter (\<lambda>i. 50 < Re ! i) [0..<length Re];
         kw2 = map (\<lambda>p. pow_half (16 * g * (1 - p) / 3)) rhopr in
     bindE (broadcast2 (\<lambda>a b. a * b) kw2 (map pow_half r)) (\<lambda>W2.
     index_copy W highRe W2))))))))))"

text \<open>\<open>OpenOil3D.update_terminal_velocity\<close>.\<close>

definition update_terminal_velocity ::
  "(real \<Rightarrow> real \<Rightarrow> real) \<Rightarrow> profiles option \<Rightarrow> profiles option \<Rightarrow>
     (real list \<Rightarrow> real list) option \<Rightarrow> 'g openoil3d \<Rightarrow> (unit, 'g openoil3d) outcome" where
  "update_terminal_velocity sea_water_density Tprofiles Sprofiles z_index self =
    (let r = map (\<lambda>x. x * 2) (particle_radius self)
     in case
         bindE (prepare_interpolation Tprofiles Sprofiles z_index self) (\<lambda>interp.
         bindE (interpolate_profile Tprofiles
                  (sea_water_temperature (environment self)) interp) (\<lambda>T0.
         bindE (interpolate_profile Sprofiles
                  (sea_water_salinity (environment self)) interp) (\<lambda>S0.
         terminal_velocities sea_water_density r (density (elements self)) T0 S0)))
       of
         Inl e \<Rightarrow> Raised e self
       | Inr W \<Rightarrow> Returned () (self\<lparr>elements := (elements self)\<lparr>terminal_velocity := W\<rparr>\<rparr>))"


section \<open>The update step\<close>

text \<open>
  The methods that \<open>OpenOil3D\<close> inherits and \<open>update\<close> calls; their code is not part of
  the module, so they are parameters. Each may return or raise.
\<close>

record 'g inherited_methods =
  oil_weathering :: "'g openoil3d \<Rightarrow> (unit, 'g openoil3d) outcome"
  vertical_mixing :: "'g openoil3d \<Rightarrow> (unit, 'g openoil3d) outcome"
  vertical_advection :: "'g openoil3d \<Rightarrow> (unit, 'g openoil3d) outcome"
  advect_oil :: "'g openoil3d \<Rightarrow> (unit, 'g openoil3d) outcome"
  sea_water_density :: "real \<Rightarrow> real \<Rightarrow> real"

text \<open>One statement after another: a raise ends the method.\<close>

definition and_then ::
  "(unit, 's) outcome \<Rightarrow> ('s \<Rightarrow> (unit, 's) outcome) \<Rightarrow> (unit, 's) outcome" where
  "and_then m f = (case m of Returned u s \<Rightarrow> f s | Raised e s \<Rightarrow> Raised e s)"

text \<open>\<open>OpenOil3D.update\<close>.\<close>

definition update :: "'g inherited_methods \<Rightarrow> 'g openoil3d \<Rightarrow> (unit, 'g openoil3d) outcome" where
  "update B self =
    and_then (oil_weathering B self) (\<lambda>self1.
    and_then
      (if processes_turbulentmixing (config self1) = True then
         and_then (update_terminal_velocity (sea_water_density B) None None None self1)
           (vertical_mixing B)
       else Returned () self1) (\<lambda>self2.
    and_then
      (if processes_verticaladvection (config self2) = True then vertical_advection B self2
       else Returned () self2)
      (advect_oil B)))"

text \<open>
  The sub-operations of a step by name, the order that the specification gives them for a
  configuration, and the execution of a list of them one after the other.
\<close>

datatype sub_operation =
  OilWeathering | UpdateTerminalVelocity | VerticalMixing | VerticalAdvection | AdvectOil

definition step_order :: "config \<Rightarrow> sub_operation list" where
  "step_order c =
    [OilWeathering]
    @ (if processes_turbulentmixing c then [UpdateTerminalVelocity, VerticalMixing] else [])
    @ (if processes_verticaladvection c then [VerticalAdvection] else [])
    @ [AdvectOil]"

fun perform :: "'g inherited_methods \<Rightarrow> sub_operation \<Rightarrow> 'g openoil3d \<Rightarrow> (unit, 'g openoil3d) outcome" where
  "perform B OilWeathering self = oil_weathering B self"
| "perform B UpdateTerminalVelocity self =
     update_terminal_velocity (sea_water_density B) None None None self"
| "perform B VerticalMixing self = vertical_mixing B self"
| "perform B VerticalAdvection self = vertical_advection B self"
| "perform B AdvectOil self = advect_oil B self"

fun perform_all ::
  "'g inherited_methods \<Rightarrow> sub_operation list \<Rightarrow> 'g openoil3d \<Rightarrow> (unit, 'g openoil3d) outcome" where
  "perform_all B [] self = Returned () self"
| "perform_all B (x # xs) self = and_then (perform B x self) (perform_all B xs)"

definition keeps_config :: "('g openoil3d \<Rightarrow> (unit, 'g openoil3d) outcome) \<Rightarrow> bool" where
  "keeps_config f = (\<forall>s. config (state_of (f s)) = config s)"


section \<open>Vocabulary of the properties\<close>

text \<open>
  The uniform draws that \<open>surface_interaction\<close> makes, one per element in index order;
  the entrainment probability that applies to element \<open>i\<close> of \<open>n\<close> (an array of length one
  applies to every element); and the condition under which element \<open>i\<close> is entrained:
  at or above the surface at entry, with its draw strictly below its probability
  (below every draw lies no NaN and no negative infinity, above every draw the positive
  infinity).
\<close>

definition random_number :: "'g np_random \<Rightarrow> 'g openoil3d \<Rightarrow> real list" where
  "random_number R self =
    fst (np_random_uniform R 0 1 (length (z (elements self))) (rng self))"

definition probability_at :: "npfloat list \<Rightarrow> nat \<Rightarrow> nat \<Rightarrow> npfloat" where
  "probability_at prob n i = (if length prob = n then prob ! i else hd prob)"

definition entrained_at :: "'g np_random \<Rightarrow> 'g openoil3d \<Rightarrow> npfloat list \<Rightarrow> nat \<Rightarrow> bool" where
  "entrained_at R self prob i =
    (0 \<le> z (elements self) ! i \<and>
     np_less (random_number R self ! i) (probability_at prob (length (z (elements self))) i))"

text \<open>
  The kinematic viscosity of sea water that \<open>update_terminal_velocity\<close> computes from
  temperature, salinity and density, and the three formulas of the specification: the
  terminal velocity at low Reynolds numbers, the Reynolds number, and the terminal
  velocity at high Reynolds numbers.
\<close>

definition nu_water :: "real \<Rightarrow> real \<Rightarrow> real \<Rightarrow> real" where
  "nu_water T S rho_water =
    (1 / 1000 * (17915 / 10000 - 538 / 10000 * T + 7 / 1000 * T ^ 2 - 23 / 10000 * S)) / rho_water"

definition low_reynolds_velocity :: "real \<Rightarrow> real \<Rightarrow> real \<Rightarrow> real \<Rightarrow> real" where
  "low_reynolds_velocity rho_oil rho_water nu r =
    2 * (981 / 100) * (1 - rho_oil / rho_water) * r ^ 2 / (9 * nu)"

definition reynolds_number :: "real \<Rightarrow> real \<Rightarrow> real \<Rightarrow> real" where
  "reynolds_number r W nu = 2 * r * W / nu"

definition high_reynolds_velocity :: "real \<Rightarrow> real \<Rightarrow> real \<Rightarrow> real" where
  "high_reynolds_velocity rho_oil rho_water r =
    sqrt (16 * (981 / 100) * (1 - rho_oil / rho_water) / 3) * sqrt r"

definition claimed_velocity :: "real \<Rightarrow> real \<Rightarrow> real \<Rightarrow> real \<Rightarrow> real" where
  "claimed_velocity rho_oil rho_water nu r =
    (if 50 < reynolds_number r (low_reynolds_velocity rho_oil rho_water nu r) nu
     then high_reynolds_velocity rho_oil rho_water r
     else low_reynolds_velocity rho_oil rho_water nu r)"


section \<open>Example inputs\<close>

definition north_sea_reader :: reader where
  "north_sea_reader =
    \<lparr>xmin = 0, xmax = 10, ymin = 50, ymax = 60, start_time = Some 0, end_time = None,
     rvariables = [''x_wind'', ''land_binary_mask''], extrapolates = False,
     rget = (\<lambda>v p t. Some 7)\<rparr>"


text \<open>
  A generator whose state counts the draws: the uniform draws cycle through 0, 1/4, 1/2
  and 3/4, and every draw from a distribution yields 1/1000.
\<close>

definition counting_rng :: "nat np_random" where
  "counting_rng =
    \<lparr>random_sample = (\<lambda>k. (real (k mod 4) / 4, k + 1)),
     choice_sample = (\<lambda>a p k. (1 / 1000, k + 1))\<rparr>"

definition example_config :: config where
  "example_config =
    \<lparr>processes_turbulentmixing = True,
     processes_verticaladvection = False,
     turbulentmixing_timestep = 20,
     turbulentmixing_verticalresolution = 1,
     droplet_diameter_min_wavebreaking = 1 / 100000,
     droplet_diameter_max_wavebreaking = 1 / 1000,
     droplet_size_exponent = 0,
     droplet_diameter_min_subsea = 5 / 10000,
     droplet_diameter_max_subsea = 5 / 1000\<rparr>"

text \<open>
  Four elements: at the surface, two metres deep, above the surface, and at the surface;
  mixing has been prepared with probability 1/2 for each, and no diameter was given at
  seeding.
\<close>

definition example_oil :: "nat openoil3d" where
  "example_oil =
    \<lparr>elements =
       \<lparr>z = [0, - 2, 3 / 2, 0],
        diameter = [1 / 100000, 1 / 100, 1 / 1000, 0],
        density = [900, 900, 900, 900],
        entrainment_length_scale = [1 / 10, 1 / 10, 1 / 10, 1 / 10],
        terminal_velocity = [0, 0, 0, 0]\<rparr>,
     environment =
       \<lparr>sea_water_temperature = [10, 10, 10, 10],
        sea_water_salinity = [34, 34, 34, 34]\<rparr>,
     config = example_config,
     keep_droplet_diameter = Some False,
     oil_entrainment_probability = Some [Finite (1 / 2), Finite (1 / 2), Finite (1 / 2), Finite (1 / 2)],
     droplet_diamenter_if_entrained = Some [2 / 1000, 3 / 1000, 4 / 1000, 5 / 1000],
     droplet_spectrum_diameter = None,
     droplet_spectrum_pdf = None,
     rng = 0\<rparr>"

text \<open>A calm sea: waves of 8 s period and 2 m height that are not damped.\<close>

definition calm_waves :: "nat wave_methods" where
  "calm_waves =
    \<lparr>wave_period = (\<lambda>self. [8, 8, 8, 8]),
     wave_damping_coefficient = (\<lambda>self. [0, 0, 0, 0]),
     significant_wave_height = (\<lambda>self. [2, 2, 2, 2])\<rparr>"

text \<open>Water of constant density, and a profile of two depth levels for four elements.\<close>

definition constant_density :: "real \<Rightarrow> real \<Rightarrow> real" where
  "constant_density T S = 1000"

definition two_levels :: profiles where
  "two_levels = \<lparr>shape0 = 2, shape1 = 4, cell = (\<lambda>i j. if i = 0 then 10 else 6)\<rparr>"

text \<open>
  Inherited methods that only log their call: the generator state of this object is the
  list of the calls made so far. Its elements, environment and configuration are those of
  the example above.
\<close>

definition logging_methods :: "sub_operation list inherited_methods" where
  "logging_methods =
    \<lparr>oil_weathering = (\<lambda>s. Returned () (s\<lparr>rng := rng s @ [OilWeathering]\<rparr>)),
     vertical_mixing = (\<lambda>s. Returned () (s\<lparr>rng := rng s @ [VerticalMixing]\<rparr>)),
     vertical_advection = (\<lambda>s. Returned () (s\<lparr>rng := rng s @ [VerticalAdvection]\<rparr>)),
     advect_oil = (\<lambda>s. Returned () (s\<lparr>rng := rng s @ [AdvectOil]\<rparr>)),
     sea_water_density = constant_density\<rparr>"

definition logged_oil :: "sub_operation list openoil3d" where
  "logged_oil =
    \<lparr>elements = elements example_oil,
     environment = environment example_oil,
     config = example_config,
     keep_droplet_diameter = Some False,
     oil_entrainment_probability = None,
     droplet_diamenter_if_entrained = None,
     droplet_spectrum_diameter = None,
     droplet_spectrum_pdf = None,
     rng = []\<rparr>"

text \<open>A depth index that maps a depth of four metres to one level.\<close>

definition quarter_index :: "real list \<Rightarrow> real list" where
  "quarter_index zs = map (\<lambda>x. x / 4) zs"

text \<open>
  Waves that are not damped out at two of four elements, over elements of which two have
  an entrainment length scale of zero.
\<close>

definition rough_waves :: "nat wave_methods" where
  "rough_waves =
    \<lparr>wave_period = (\<lambda>self. [8, 8, 8, 8]),
     wave_damping_coefficient = (\<lambda>self. [1, 1, 0, 0]),
     significant_wave_height = (\<lambda>self. [1, 1, 1, 1])\<rparr>"

definition zero_length_scale_oil :: "nat openoil3d" where
  "zero_length_scale_oil =
    example_oil\<lparr>elements :=
      (elements example_oil)\<lparr>entrainment_length_scale := [0, 1 / 10, 0, 1 / 10]\<rparr>\<rparr>"

text \<open>
  Two seedings into an object without elements: two elements with the diameter 7 mm given
  by the caller, then two elements without a diameter. Then mixing is prepared under
  breaking waves (period 2 pi seconds, height 2 m), and the surface interaction follows.
\<close>

definition empty_oil :: "nat openoil3d" where
  "empty_oil =
    \<lparr>elements =
       \<lparr>z = [], diameter = [], density = [], entrainment_length_scale = [],
        terminal_velocity = []\<rparr>,
     environment = \<lparr>sea_water_temperature = [], sea_water_salinity = []\<rparr>,
     config = example_config,
     keep_droplet_diameter = None,
     oil_entrainment_probability = None,
     droplet_diamenter_if_entrained = None,
     droplet_spectrum_diameter = None,
     droplet_spectrum_pdf = None,
     rng = 0\<rparr>"

definition given_diameter_batch :: seed_kwargs where
  "given_diameter_batch = \<lparr>kw_number = Some 2, kw_diameter = Some [7 / 1000], kw_z = None\<rparr>"

definition default_batch :: seed_kwargs where
  "default_batch = \<lparr>kw_number = Some 2, kw_diameter = None, kw_z = None\<rparr>"

definition breaking_waves :: "nat wave_methods" where
  "breaking_waves =
    \<lparr>wave_period = (\<lambda>self. [2 * pi, 2 * pi, 2 * pi, 2 * pi]),
     wave_damping_coefficient = (\<lambda>self. [3 / 100, 3 / 100, 3 / 100, 3 / 100]),
     significant_wave_height = (\<lambda>self. [2, 2, 2, 2])\<rparr>"

definition seeded_with_diameter :: "nat openoil3d" where
  "seeded_with_diameter =
    state_of (seed_elements counting_rng (schedule_elements (- 100) 900)
      given_diameter_batch empty_oil)"

definition seeded_again :: "nat openoil3d" where
  "seeded_again =
    state_of (seed_elements counting_rng (schedule_elements (- 100) 900)
      default_batch seeded_with_diameter)"

definition mixing_prepared :: "nat openoil3d" where
  "mixing_prepared = state_of (prepare_vertical_mixing counting_rng breaking_waves seeded_again)"


section \<open>Facts about the class-level tables\<close>

lemma fallback_keys:
  "map fst fallback_items =
    [''x_sea_water_velocity'', ''y_sea_water_velocity'',
     ''sea_surface_wave_significant_height'',
     ''sea_surface_wave_stokes_drift_x_velocity'',
     ''sea_surface_wave_stokes_drift_y_velocity'',
     ''sea_surface_wave_period_at_variance_spectral_density_maximum'',
     ''sea_surface_wave_mean_period_from_variance_spectral_density_second_frequency_moment'',
     ''sea_ice_area_fraction'',
     ''x_wind'', ''y_wind'',
     ''sea_floor_depth_below_sea_level'',
     ''ocean_vertical_diffusivity'',
     ''sea_water_temperature'',
     ''sea_water_salinity'',
     ''upward_sea_water_velocity'']"
  by (simp add: fallback_items_def)

lemma fallback_None_iff: "fallback_values v = None \<longleftrightarrow> v \<notin> set (map fst fallback_items)"
  by (simp add: fallback_values_def map_of_eq_None_iff)

lemma required_variables_split:
  "set required_variables = insert ''land_binary_mask'' (set (map fst fallback_items))"
  unfolding fallback_keys by (simp add: required_variables_def insert_commute)

lemma land_binary_mask_no_fallback: "''land_binary_mask'' \<notin> set (map fst fallback_items)"
  unfolding fallback_keys by simp

lemma fallback_land_binary_mask: "fallback_values ''land_binary_mask'' = None"
  using fallback_None_iff land_binary_mask_no_fallback by blast

lemma fallback_defined:
  "v \<in> set required_variables \<Longrightarrow> v \<noteq> ''land_binary_mask'' \<Longrightarrow> \<exists>c. fallback_values v = Some c"
  using fallback_None_iff [of v] required_variables_split by auto

lemma first_reader_value_uncovered:
  "\<forall>r \<in> set readers. \<not> covers r v p t \<Longrightarrow> first_reader_value readers v p t = None"
  by (induction readers) simp_all


section \<open>Facts about the surface interaction\<close>

lemma length_draws: "length (fst (draws f n g)) = n"
  by (induction n arbitrary: g) (simp_all add: split_beta)

lemma length_np_random_uniform: "length (fst (np_random_uniform R a b n g)) = n"
  by (simp add: np_random_uniform_def split_beta length_draws)

lemma length_random_number: "length (random_number R self) = length (z (elements self))"
  by (simp add: random_number_def length_np_random_uniform)

lemma put_mask_length: "length msk = length a \<Longrightarrow> length (put_mask a msk v) = length a"
  by (simp add: put_mask_def)

lemma put_mask_nth:
  "length msk = length a \<Longrightarrow> i < length a \<Longrightarrow> put_mask a msk v ! i = (if msk ! i then v else a ! i)"
  by (simp add: put_mask_def)

lemma mask_set_Inr:
  "mask_set a msk v = Inr b \<Longrightarrow> length msk = length a \<and> b = put_mask a msk v"
  by (simp add: mask_set_def split: if_splits)

lemma mask_copy_Inr:
  "mask_copy a msk b = Inr c \<Longrightarrow>
     length msk = length a \<and> length b = length a \<and> length c = length a \<and>
     (\<forall>i < length a. c ! i = (if msk ! i then b ! i else a ! i))"
  by (auto simp add: mask_copy_def split: if_splits)

lemma entrained_Inr:
  assumes "bindE (broadcast2 np_less rs prob)
             (\<lambda>below. broadcast2 (\<lambda>s b. s \<and> b) surface below) = Inr ent"
    and "length rs = n" and "length surface = n" and "length ent = n"
  shows "(length prob = n \<or> length prob = 1) \<and>
         (\<forall>i < n. ent ! i = (surface ! i \<and> np_less (rs ! i) (probability_at prob n i)))"
  using assms
  by (auto simp add: bindE_def broadcast2_def probability_at_def split: if_splits sum.splits)

lemma surface_interaction_Returned:
  assumes ret: "surface_interaction R self = Returned () self'"
  shows "\<exists>prob keep ent.
      oil_entrainment_probability self = Some prob \<and>
      keep_droplet_diameter self = Some keep \<and>
      bindE (broadcast2 np_less (random_number R self) prob)
        (\<lambda>below. broadcast2 (\<lambda>s b. s \<and> b) (map (\<lambda>x. 0 \<le> x) (z (elements self))) below) = Inr ent \<and>
      length ent = length (z (elements self)) \<and>
      z (elements self') =
         put_mask (put_mask (z (elements self)) (map (\<lambda>x. 0 \<le> x) (z (elements self))) 0) ent
           (- turbulentmixing_verticalresolution (config self) / 2) \<and>
      (keep \<longrightarrow> diameter (elements self') = diameter (elements self)) \<and>
      (\<not> keep \<longrightarrow> (\<exists>d. droplet_diamenter_if_entrained self = Some d \<and>
           mask_copy (diameter (elements self)) ent d = Inr (diameter (elements self'))))"
  using ret unfolding random_number_def surface_interaction_def Let_def
  by (auto split: option.splits sum.splits if_splits dest!: mask_set_Inr simp add: put_mask_length)

lemma surface_interaction_Returned_nth:
  assumes ret: "surface_interaction R self = Returned () self'"
    and i: "i < length (z (elements self))"
  shows "\<exists>prob keep.
      oil_entrainment_probability self = Some prob \<and>
      keep_droplet_diameter self = Some keep \<and>
      length (z (elements self')) = length (z (elements self)) \<and>
      z (elements self') ! i =
        (if entrained_at R self prob i
         then - turbulentmixing_verticalresolution (config self) / 2
         else if 0 \<le> z (elements self) ! i then 0 else z (elements self) ! i) \<and>
      (keep \<longrightarrow> diameter (elements self') = diameter (elements self)) \<and>
      (\<not> keep \<longrightarrow> (\<exists>d. droplet_diamenter_if_entrained self = Some d \<and>
           length d = length (z (elements self)) \<and>
           length (diameter (elements self)) = length (z (elements self)) \<and>
           length (diameter (elements self')) = length (z (elements self)) \<and>
           diameter (elements self') ! i =
             (if entrained_at R self prob i then d ! i else diameter (elements self) ! i)))"
proof -
  let ?n = "length (z (elements self))"
  let ?surface = "map (\<lambda>x. 0 \<le> x) (z (elements self))"
  from surface_interaction_Returned [OF ret] obtain prob keep ent where
    p: "oil_entrainment_probability self = Some prob" and
    k: "keep_droplet_diameter self = Some keep" and
    e: "bindE (broadcast2 np_less (random_number R self) prob)
          (\<lambda>below. broadcast2 (\<lambda>s b. s \<and> b) ?surface below) = Inr ent" and
    le: "length ent = ?n" and
    zz: "z (elements self') =
         put_mask (put_mask (z (elements self)) ?surface 0) ent
           (- turbulentmixing_verticalresolution (config self) / 2)" and
    dk: "keep \<longrightarrow> diameter (elements self') = diameter (elements self)" and
    dn: "\<not> keep \<longrightarrow> (\<exists>d. droplet_diamenter_if_entrained self = Some d \<and>
           mask_copy (diameter (elements self)) ent d = Inr (diameter (elements self')))"
    by blast
  have ent: "ent ! i = entrained_at R self prob i"
    using entrained_Inr [OF e length_random_number _ le] i
    by (simp add: entrained_at_def)
  have len: "length (z (elements self')) = ?n"
    by (simp add: zz put_mask_length le)
  have zi: "z (elements self') ! i =
        (if entrained_at R self prob i
         then - turbulentmixing_verticalresolution (config self) / 2
         else if 0 \<le> z (elements self) ! i then 0 else z (elements self) ! i)"
    using i by (simp add: zz put_mask_nth put_mask_length le ent)
  have dn': "\<not> keep \<longrightarrow> (\<exists>d. droplet_diamenter_if_entrained self = Some d \<and>
           length d = ?n \<and> length (diameter (elements self)) = ?n \<and>
           length (diameter (elements self')) = ?n \<and>
           diameter (elements self') ! i =
             (if entrained_at R self prob i then d ! i else diameter (elements self) ! i))"
  proof
    assume "\<not> keep"
    with dn obtain d where d: "droplet_diamenter_if_entrained self = Some d"
      and mc: "mask_copy (diameter (elements self)) ent d = Inr (diameter (elements self'))"
      by blast
    from mask_copy_Inr [OF mc] le i ent d
    show "\<exists>d. droplet_diamenter_if_entrained self = Some d \<and>
           length d = ?n \<and> length (diameter (elements self)) = ?n \<and>
           length (diameter (elements self')) = ?n \<and>
           diameter (elements self') ! i =
             (if entrained_at R self prob i then d ! i else diameter (elements self) ! i)"
      by auto
  qed
  from p k len zi dk dn' show ?thesis by blast
qed

lemma draws_numeral:
  "draws f (numeral k) g =
    (case f g of (x, g1) \<Rightarrow> (case draws f (pred_numeral k) g1 of (xs, g2) \<Rightarrow> (x # xs, g2)))"
  by (simp add: numeral_eq_Suc)

lemma example_draws:
  "random_number counting_rng example_oil = [0, 1 / 4, 1 / 2, 3 / 4]"
  by (simp add: random_number_def np_random_uniform_def counting_rng_def example_oil_def
      draws_numeral)


lemma example_uniform:
  "np_random_uniform counting_rng 0 1 (Suc (Suc (Suc (Suc 0)))) 0 = ([0, 1 / 4, 1 / 2, 3 / 4], 4)"
  by (simp add: np_random_uniform_def counting_rng_def)

lemma example_surface_interaction:
  "surface_interaction counting_rng example_oil =
     Returned ()
       (example_oil\<lparr>elements := (elements example_oil)
            \<lparr>z := [- 1 / 2, - 2, 0, 0], diameter := [2 / 1000, 1 / 100, 1 / 1000, 0]\<rparr>,
          rng := 4\<rparr>)"
  by (simp add: surface_interaction_def Let_def example_oil_def example_uniform
      example_config_def put_mask_def mask_set_def mask_copy_def bindE_def broadcast2_def)

lemma entrained_sub:
  assumes "bindE (broadcast2 np_less rs prob)
             (\<lambda>below. broadcast2 (\<lambda>s b. s \<and> b) surface below) = Inr ent"
    and "length rs = length surface" and "length ent = length surface"
    and "i < length surface" and "ent ! i"
  shows "surface ! i"
  using entrained_Inr [OF assms(1) assms(2) refl assms(3)] assms(4,5) by simp

lemma fold_update_length: "length (fold (\<lambda>i a. a[i := f i]) idx a) = length a"
  by (induction idx arbitrary: a) simp_all

lemma fold_update_nth:
  "k < length a \<Longrightarrow>
   fold (\<lambda>i a. a[i := f i]) idx a ! k = (if k \<in> set idx then f k else a ! k)"
proof (induction idx arbitrary: a)
  case Nil
  then show ?case by simp
next
  case (Cons j idx)
  then show ?case by (cases "j = k") (simp_all add: nth_list_update)
qed

lemma resurface_elements_z:
  "z (elements (resurface_elements self)) = map (\<lambda>x. if 0 \<le> x then 0 else x) (z (elements self))"
  by (rule nth_equalityI)
     (simp_all add: resurface_elements_def Let_def fold_update_length fold_update_nth)

lemma surface_interaction_frame:
  assumes "i < length (z (elements self))" and "z (elements self) ! i < 0"
  shows "z (elements (state_of (surface_interaction R self))) ! i = z (elements self) ! i \<and>
         diameter (elements (state_of (surface_interaction R self))) ! i =
           diameter (elements self) ! i"
proof -
  let ?n = "length (z (elements self))"
  let ?surface = "map (\<lambda>x. 0 \<le> x) (z (elements self))"
  let ?z1 = "put_mask (z (elements self)) ?surface 0"
  have z1: "?z1 ! i = z (elements self) ! i"
    using assms by (simp add: put_mask_nth)
  have not_ent: "\<not> ent ! i"
    if "bindE (broadcast2 np_less
                 (fst (np_random_uniform R 0 1 ?n (rng self))) prob)
          (\<lambda>below. broadcast2 (\<lambda>s b. s \<and> b) ?surface below) = Inr ent"
      and "length ent = ?n" for ent prob
    using entrained_sub [OF that(1) _ _ _, of i] that(2) assms
    by (auto simp add: length_np_random_uniform)
  have z2: "put_mask ?z1 ent v ! i = z (elements self) ! i"
    if "bindE (broadcast2 np_less
                 (fst (np_random_uniform R 0 1 ?n (rng self))) prob)
          (\<lambda>below. broadcast2 (\<lambda>s b. s \<and> b) ?surface below) = Inr ent"
      and "length ent = ?n" for ent prob v
    using not_ent [OF that] that(2) assms z1 by (simp add: put_mask_nth put_mask_length)
  have d2: "d2 ! i = diameter (elements self) ! i"
    if "bindE (broadcast2 np_less
                 (fst (np_random_uniform R 0 1 ?n (rng self))) prob)
          (\<lambda>below. broadcast2 (\<lambda>s b. s \<and> b) ?surface below) = Inr ent"
      and "length ent = ?n"
      and "mask_copy (diameter (elements self)) ent d = Inr d2" for ent prob d d2
    using not_ent [OF that(1,2)] mask_copy_Inr [OF that(3)] that(2) assms by simp
  show ?thesis
    unfolding surface_interaction_def Let_def
    by (auto split: option.splits sum.splits dest!: mask_set_Inr
        simp add: z1 z2 d2 put_mask_length)
qed

lemma get_wave_breaking_droplet_diameter_frame:
  "get_wave_breaking_droplet_diameter R k self = Returned d self' \<Longrightarrow>
     length d = k \<and> elements self' = elements self \<and> config self' = config self \<and>
     keep_droplet_diameter self' = keep_droplet_diameter self \<and>
     oil_entrainment_probability self' = oil_entrainment_probability self"
  unfolding get_wave_breaking_droplet_diameter_def Let_def np_random_choice_def
  by (auto split: option.splits if_splits simp add: length_draws)

lemma prepare_vertical_mixing_Returned:
  assumes "prepare_vertical_mixing R W self = Returned () self'"
  shows "\<exists>rate d. oil_wave_entrainment_rate W self = Inr rate \<and>
      oil_entrainment_probability self' =
        Some (map (\<lambda>x. np_mul x (Finite (turbulentmixing_timestep (config self)))) rate) \<and>
      droplet_diamenter_if_entrained self' = Some d \<and>
      length d = length (z (elements self)) \<and>
      elements self' = elements self \<and>
      keep_droplet_diameter self' = keep_droplet_diameter self"
  using assms unfolding prepare_vertical_mixing_def Let_def
  by (auto split: sum.splits outcome.splits dest!: get_wave_breaking_droplet_diameter_frame)

lemma if_call_cases:
  assumes "\<exists>a b. X = f a b \<and> P b" and "\<exists>a b. Y = f a b \<and> P b"
  shows "\<exists>a b. (if c then X else Y) = f a b \<and> P b"
  using assms by (cases c) simp_all

lemma seed_elements_flag:
  "\<exists>kwargs' self1. seed_elements R super_seed kwargs self = super_seed kwargs' self1 \<and>
      keep_droplet_diameter self1 = Some (kw_diameter kwargs \<noteq> None)"
  unfolding seed_elements_def Let_def
  by (rule if_call_cases; (intro exI conjI, rule refl, simp))


lemma example_rate:
  "oil_wave_entrainment_rate calm_waves example_oil = Inr [Finite 0, Finite 0, Finite 0, Finite 0]"
  by (simp add: oil_wave_entrainment_rate_def calm_waves_def example_oil_def bindE_def
      broadcast2_def)

lemma example_prepare:
  "\<exists>s. prepare_vertical_mixing counting_rng calm_waves example_oil = Returned () s"
  unfolding prepare_vertical_mixing_def example_rate
  by (simp add: Let_def get_wave_breaking_droplet_diameter_def example_oil_def)

lemma zero_length_scale_rate:
  "oil_wave_entrainment_rate rough_waves zero_length_scale_oil =
     Inr [PosInf, Finite (pi / 24), NaN, Finite 0]"
  by (simp add: oil_wave_entrainment_rate_def rough_waves_def zero_length_scale_oil_def
      example_oil_def bindE_def broadcast2_def)

lemma seeded_with_diameter_value:
  "seeded_with_diameter =
    empty_oil\<lparr>keep_droplet_diameter := Some True,
      elements := \<lparr>z = [0, 0], diameter = [7 / 1000, 7 / 1000], density = [900, 900],
        entrainment_length_scale = [1 / 10, 1 / 10], terminal_velocity = [0, 0]\<rparr>\<rparr>"
  by (simp add: seeded_with_diameter_def seed_elements_def schedule_elements_def
      attribute_values_def given_diameter_batch_def empty_oil_def bindE_def Let_def
      numeral_2_eq_2)

lemma seeded_again_value:
  "seeded_again =
    empty_oil\<lparr>keep_droplet_diameter := Some False,
      elements := \<lparr>z = [0, 0, 0, 0],
        diameter = [7 / 1000, 7 / 1000, 1 / 100000, 1 / 100000],
        density = [900, 900, 900, 900],
        entrainment_length_scale = [1 / 10, 1 / 10, 1 / 10, 1 / 10],
        terminal_velocity = [0, 0, 0, 0]\<rparr>\<rparr>"
  unfolding seeded_again_def seeded_with_diameter_value
  by (simp add: seed_elements_def schedule_elements_def
      attribute_values_def default_batch_def empty_oil_def bindE_def Let_def
      numeral_2_eq_2)


lemma breaking_waves_rate:
  "oil_wave_entrainment_rate breaking_waves seeded_again =
     Inr [Finite (1 / 100), Finite (1 / 100), Finite (1 / 100), Finite (1 / 100)]"
  unfolding seeded_again_value
  by (simp add: oil_wave_entrainment_rate_def breaking_waves_def empty_oil_def bindE_def
      broadcast2_def)

lemma mixing_prepared_fields:
  "elements mixing_prepared = elements seeded_again"
  "config mixing_prepared = example_config"
  "keep_droplet_diameter mixing_prepared = Some False"
  "oil_entrainment_probability mixing_prepared =
     Some [Finite (1 / 5), Finite (1 / 5), Finite (1 / 5), Finite (1 / 5)]"
  "droplet_diamenter_if_entrained mixing_prepared =
     Some [1 / 1000, 1 / 1000, 1 / 1000, 1 / 1000]"
  "rng mixing_prepared = 4"
  unfolding mixing_prepared_def prepare_vertical_mixing_def breaking_waves_rate
  unfolding seeded_again_value
  by (simp_all add: Let_def get_wave_breaking_droplet_diameter_def np_random_choice_def
      counting_rng_def empty_oil_def example_config_def)


lemma mixing_prepared_arrays:
  "z (elements mixing_prepared) = [0, 0, 0, 0]"
  "diameter (elements mixing_prepared) = [7 / 1000, 7 / 1000, 1 / 100000, 1 / 100000]"
  unfolding mixing_prepared_fields seeded_again_value by simp_all

lemma later_uniform:
  "np_random_uniform counting_rng 0 1 (Suc (Suc (Suc (Suc 0)))) 4 = ([0, 1 / 4, 1 / 2, 3 / 4], 8)"
  by (simp add: np_random_uniform_def counting_rng_def)

lemma mixing_prepared_surface_interaction:
  "surface_interaction counting_rng mixing_prepared =
     Returned ()
       (mixing_prepared\<lparr>elements := (elements mixing_prepared)
            \<lparr>z := [- 1 / 2, 0, 0, 0],
             diameter := [1 / 1000, 7 / 1000, 1 / 100000, 1 / 100000]\<rparr>,
          rng := 8\<rparr>)"
  by (simp add: surface_interaction_def Let_def mixing_prepared_fields(2-6)
      mixing_prepared_arrays later_uniform example_config_def
      put_mask_def mask_set_def mask_copy_def bindE_def broadcast2_def)

section \<open>Facts about the terminal velocity\<close>

lemma broadcast2_same_length:
  "length xs = length ys \<Longrightarrow> broadcast2 f xs ys = Inr (map2 f xs ys)"
  by (simp add: broadcast2_def)

lemma bindE_Inr: "bindE (Inr x) f = f x"
  by (simp add: bindE_def)

lemma bindE_Inl: "bindE (Inl e) f = Inl e"
  by (simp add: bindE_def)

lemma index_copy_filter:
  assumes "length a = n" and "length b = n"
  shows "\<exists>c. index_copy a (filter P [0..<n]) b = Inr c \<and> length c = n \<and>
           (\<forall>i < n. c ! i = (if P i then b ! i else a ! i))"
proof -
  have ok: "list_all (\<lambda>i. i < length b \<and> i < length a) (filter P [0..<n])"
    using assms by (simp add: list_all_iff)
  have "index_copy a (filter P [0..<n]) b = Inr (fold (\<lambda>i a'. a'[i := b ! i]) (filter P [0..<n]) a)"
    using ok by (simp add: index_copy_def)
  moreover have "length (fold (\<lambda>i a'. a'[i := b ! i]) (filter P [0..<n]) a) = n"
    using assms by (simp add: fold_update_length)
  moreover have "\<forall>i < n. fold (\<lambda>i a'. a'[i := b ! i]) (filter P [0..<n]) a ! i =
      (if P i then b ! i else a ! i)"
    using assms by (simp add: fold_update_nth)
  ultimately show ?thesis by blast
qed

text \<open>The velocity of one element, written as the source computes it.\<close>

lemma terminal_velocities_nth:
  assumes r: "length r = n" and o: "length rho_oil = n" and t: "length T0 = n" and s: "length S0 = n"
  shows "\<exists>W. terminal_velocities swd r rho_oil T0 S0 = Inr W \<and> length W = n \<and>
     (\<forall>i < n. W ! i =
        (let rho_water = swd (T0 ! i) (S0 ! i);
             ny_w = (1 / 1000 * ((17915 / 10000 - 538 / 10000 * T0 ! i + 7 / 1000 * (T0 ! i) ^ 2)
                        - 23 / 10000 * S0 ! i)) / rho_water;
             rhopr = rho_oil ! i / rho_water;
             Wl = (2 * (981 / 100) * (1 - rhopr)) / (9 * ny_w) * (r ! i) ^ 2
         in if 50 < (2 * r ! i * Wl) / ny_w
            then pow_half (16 * (981 / 100) * (1 - rhopr) / 3) * pow_half (r ! i)
            else Wl))"
proof -
  define rho_water where "rho_water = map2 swd T0 S0"
  define m where "m = map2 (\<lambda>a b. a - b)
              (map (\<lambda>t. 17915 / 10000 - 538 / 10000 * t + 7 / 1000 * t ^ 2) T0)
              (map (\<lambda>s. 23 / 10000 * s) S0)"
  define my_w where "my_w = map (\<lambda>x. 1 / 1000 * x) m"
  define ny_w where "ny_w = map2 (\<lambda>a b. a / b) my_w rho_water"
  define rhopr where "rhopr = map2 (\<lambda>a b. a / b) rho_oil rho_water"
  define kw where "kw = map2 (\<lambda>a b. a / b)
              (map (\<lambda>p. 2 * (981 / 100) * (1 - p)) rhopr) (map (\<lambda>n. 9 * n) ny_w)"
  define W where "W = map2 (\<lambda>a b. a * b) kw (map (\<lambda>x. x ^ 2) r)"
  define rW where "rW = map2 (\<lambda>a b. a * b) (map (\<lambda>x. 2 * x) r) W"
  define Re where "Re = map2 (\<lambda>a b. a / b) rW ny_w"
  define kw2 where "kw2 = map (\<lambda>p. pow_half (16 * (981 / 100) * (1 - p) / 3)) rhopr"
  define W2 where "W2 = map2 (\<lambda>a b. a * b) kw2 (map pow_half r)"
  have lens: "length rho_water = n" "length m = n" "length my_w = n" "length ny_w = n"
    "length rhopr = n" "length kw = n" "length W = n" "length rW = n" "length Re = n"
    "length kw2 = n" "length W2 = n"
    using r o t s
    by (simp_all add: rho_water_def m_def my_w_def ny_w_def rhopr_def kw_def W_def rW_def
        Re_def kw2_def W2_def)
  have eq: "terminal_velocities swd r rho_oil T0 S0 =
      index_copy W (filter (\<lambda>i. 50 < Re ! i) [0..<n]) W2"
    using r o t s
    unfolding terminal_velocities_def Let_def Re_def rW_def W2_def kw2_def W_def kw_def
      rhopr_def ny_w_def my_w_def m_def rho_water_def
    by (simp add: broadcast2_same_length bindE_Inr)
  from index_copy_filter [OF lens(7) lens(11), of "\<lambda>i. 50 < Re ! i"]
  obtain c where c: "index_copy W (filter (\<lambda>i. 50 < Re ! i) [0..<n]) W2 = Inr c"
    and lc: "length c = n"
    and ci: "\<forall>i < n. c ! i = (if 50 < Re ! i then W2 ! i else W ! i)"
    by blast
  have nth: "c ! i =
        (let rho_water = swd (T0 ! i) (S0 ! i);
             ny_w = (1 / 1000 * ((17915 / 10000 - 538 / 10000 * T0 ! i + 7 / 1000 * (T0 ! i) ^ 2)
                        - 23 / 10000 * S0 ! i)) / rho_water;
             rhopr = rho_oil ! i / rho_water;
             Wl = (2 * (981 / 100) * (1 - rhopr)) / (9 * ny_w) * (r ! i) ^ 2
         in if 50 < (2 * r ! i * Wl) / ny_w
            then pow_half (16 * (981 / 100) * (1 - rhopr) / 3) * pow_half (r ! i)
            else Wl)" if i: "i < n" for i
  proof -
    have a: "rho_water ! i = swd (T0 ! i) (S0 ! i)"
      using i t s by (simp add: rho_water_def)
    have b: "ny_w ! i = (1 / 1000 * ((17915 / 10000 - 538 / 10000 * T0 ! i + 7 / 1000 * (T0 ! i) ^ 2)
                        - 23 / 10000 * S0 ! i)) / rho_water ! i"
      using i t s lens by (simp add: ny_w_def my_w_def m_def)
    have c': "rhopr ! i = rho_oil ! i / rho_water ! i"
      using i o lens by (simp add: rhopr_def)
    have d: "W ! i = (2 * (981 / 100) * (1 - rhopr ! i)) / (9 * ny_w ! i) * (r ! i) ^ 2"
      using i r lens by (simp add: W_def kw_def)
    have e: "Re ! i = (2 * r ! i * W ! i) / ny_w ! i"
      using i r lens by (simp add: Re_def rW_def)
    have f: "W2 ! i = pow_half (16 * (981 / 100) * (1 - rhopr ! i) / 3) * pow_half (r ! i)"
      using i r lens by (simp add: W2_def kw2_def)
    have "c ! i = (if 50 < Re ! i then W2 ! i else W ! i)"
      using ci i by blast
    then show ?thesis
      unfolding Let_def a [symmetric] b [symmetric] c' [symmetric] d [symmetric]
        e [symmetric] f [symmetric] .
  qed
  from eq c lc nth show ?thesis by auto
qed

lemma high_reynolds_buoyant:
  fixes r x ny :: real
  assumes "0 \<le> r" and "50 < 2 * r * (2 * (981 / 100) * x / (9 * ny) * r ^ 2) / ny"
  shows "0 \<le> x"
proof (rule ccontr)
  assume "\<not> 0 \<le> x"
  then have x: "x < 0" by simp
  have eq: "2 * r * (2 * (981 / 100) * x / (9 * ny) * r ^ 2) / ny =
      (4 * (981 / 100) / 9) * (x * (r ^ 3 / ny ^ 2))"
    by (cases "ny = 0") (simp_all add: power2_eq_square power3_eq_cube mult_ac)
  have q: "0 \<le> r ^ 3 / ny ^ 2"
    using assms(1) by simp
  have "x \<le> 0" using x by simp
  then have p: "x * (r ^ 3 / ny ^ 2) \<le> 0"
    using q by (rule mult_nonpos_nonneg)
  have "(0::real) \<le> 4 * (981 / 100) / 9" by simp
  then have "(4 * (981 / 100) / 9) * (x * (r ^ 3 / ny ^ 2)) \<le> 0"
    using p by (rule mult_nonneg_nonpos)
  with eq assms(2) show False by linarith
qed

lemma pow_half_sqrt: "0 \<le> x \<Longrightarrow> pow_half x = sqrt x"
  by (simp add: pow_half_def powr_half_sqrt)

lemma source_velocity_eq_claimed:
  assumes "0 \<le> r"
  shows "(let rhopr = rho_oil / rho_water;
              Wl = (2 * (981 / 100) * (1 - rhopr)) / (9 * ny) * r ^ 2
          in if 50 < (2 * r * Wl) / ny
             then pow_half (16 * (981 / 100) * (1 - rhopr) / 3) * pow_half r
             else Wl) = claimed_velocity rho_oil rho_water ny r"
proof -
  let ?x = "1 - rho_oil / rho_water"
  let ?Wl = "(2 * (981 / 100) * ?x) / (9 * ny) * r ^ 2"
  have wl: "?Wl = low_reynolds_velocity rho_oil rho_water ny r"
    by (simp add: low_reynolds_velocity_def)
  have re: "(2 * r * ?Wl) / ny = reynolds_number r (low_reynolds_velocity rho_oil rho_water ny r) ny"
    unfolding wl by (simp add: reynolds_number_def)
  have hi: "pow_half (16 * (981 / 100) * ?x / 3) * pow_half r =
      high_reynolds_velocity rho_oil rho_water r" if "50 < (2 * r * ?Wl) / ny"
  proof -
    have "0 \<le> ?x"
      using high_reynolds_buoyant [OF assms that] .
    then have "0 \<le> 16 * (981 / 100) * ?x / 3" by simp
    then show ?thesis
      using assms by (simp add: pow_half_sqrt high_reynolds_velocity_def)
  qed
  show ?thesis
    unfolding Let_def claimed_velocity_def
    using hi wl re by presburger
qed

lemma twice_particle_radius:
  "map (\<lambda>x. x * 2) (particle_radius self) = diameter (elements self)"
  by (simp add: particle_radius_def map_idI)

lemma interpolate_profile_None: "interpolate_profile None xs interp = Inr xs"
  by (simp add: interpolate_profile_def)

lemma update_terminal_velocity_Returned:
  assumes "update_terminal_velocity swd Tprofiles Sprofiles z_index self = Returned () self'"
  shows "\<exists>interp T0 S0 W.
      prepare_interpolation Tprofiles Sprofiles z_index self = Inr interp \<and>
      interpolate_profile Tprofiles (sea_water_temperature (environment self)) interp = Inr T0 \<and>
      interpolate_profile Sprofiles (sea_water_salinity (environment self)) interp = Inr S0 \<and>
      terminal_velocities swd (diameter (elements self)) (density (elements self)) T0 S0 = Inr W \<and>
      self' = self\<lparr>elements := (elements self)\<lparr>terminal_velocity := W\<rparr>\<rparr>"
  using assms
  unfolding update_terminal_velocity_def Let_def twice_particle_radius
  by (auto simp add: bindE_def split: sum.splits)

lemma update_terminal_velocity_Raised:
  "update_terminal_velocity swd Tprofiles Sprofiles z_index self = Raised e self' \<Longrightarrow> self' = self"
  unfolding update_terminal_velocity_def Let_def
  by (auto split: sum.splits)

lemma prepare_interpolation_no_z_index:
  assumes "Tprofiles \<noteq> None \<or> Sprofiles \<noteq> None"
  shows "prepare_interpolation Tprofiles Sprofiles None self =
     Inl (if Tprofiles = None then AttributeError ''shape'' else NameError ''interp1d'')"
  using assms by (auto simp add: prepare_interpolation_def split: option.splits)

lemma prepare_interpolation_no_Tprofiles:
  assumes "Sprofiles \<noteq> None"
  shows "prepare_interpolation None Sprofiles z_index self = Inl (AttributeError ''shape'')"
  using assms by (auto simp add: prepare_interpolation_def Let_def split: option.splits)

lemma update_terminal_velocity_prepare_fails:
  "prepare_interpolation Tprofiles Sprofiles z_index self = Inl e \<Longrightarrow>
   update_terminal_velocity swd Tprofiles Sprofiles z_index self = Raised e self"
  by (simp add: update_terminal_velocity_def Let_def bindE_def)

lemma update_terminal_velocity_default:
  assumes "length (density (elements self)) = length (diameter (elements self))"
    and "length (sea_water_temperature (environment self)) = length (diameter (elements self))"
    and "length (sea_water_salinity (environment self)) = length (diameter (elements self))"
  shows "\<exists>W. update_terminal_velocity swd None None None self =
           Returned () (self\<lparr>elements := (elements self)\<lparr>terminal_velocity := W\<rparr>\<rparr>)"
proof -
  from terminal_velocities_nth [OF refl assms, of swd]
  obtain W where "terminal_velocities swd (diameter (elements self)) (density (elements self))
      (sea_water_temperature (environment self)) (sea_water_salinity (environment self)) = Inr W"
    by blast
  then have "update_terminal_velocity swd None None None self =
           Returned () (self\<lparr>elements := (elements self)\<lparr>terminal_velocity := W\<rparr>\<rparr>)"
    unfolding update_terminal_velocity_def Let_def twice_particle_radius
    by (simp add: prepare_interpolation_def interpolate_profile_None bindE_def)
  then show ?thesis by blast
qed

lemma example_prepare_interpolation:
  "prepare_interpolation (Some two_levels) None (Some quarter_index) example_oil =
     Inr (Some ([0, 0, 0, 0], [1, 1, 1, 1], [1, 1 / 2, 11 / 8, 1]))"
  by (simp add: prepare_interpolation_def Let_def quarter_index_def example_oil_def
      two_levels_def broadcast2_def bindE_def)

lemma example_interpolated_temperature:
  "interpolate_profile (Some two_levels) (sea_water_temperature (environment example_oil))
     (Some ([0, 0, 0, 0], [1, 1, 1, 1], [1, 1 / 2, 11 / 8, 1])) = Inr [10, 8, 23 / 2, 10]"
  by (simp add: interpolate_profile_def fancy_index_def two_levels_def broadcast2_def bindE_def
      upt_rec)

lemma example_profile_call:
  "\<exists>s. update_terminal_velocity constant_density (Some two_levels) None (Some quarter_index)
         example_oil = Returned () s"
proof -
  have lens: "length (density (elements example_oil)) = length (diameter (elements example_oil))"
    "length [10, 8, 23 / 2, 10 :: real] = length (diameter (elements example_oil))"
    "length (sea_water_salinity (environment example_oil)) = length (diameter (elements example_oil))"
    by (simp_all add: example_oil_def)
  from terminal_velocities_nth [OF refl lens, of constant_density]
  obtain W where "terminal_velocities constant_density (diameter (elements example_oil))
      (density (elements example_oil)) [10, 8, 23 / 2, 10]
      (sea_water_salinity (environment example_oil)) = Inr W"
    by blast
  then have "update_terminal_velocity constant_density (Some two_levels) None (Some quarter_index)
         example_oil =
      Returned () (example_oil\<lparr>elements := (elements example_oil)\<lparr>terminal_velocity := W\<rparr>\<rparr>)"
    unfolding update_terminal_velocity_def Let_def twice_particle_radius
      example_prepare_interpolation
    by (simp add: bindE_Inr example_interpolated_temperature interpolate_profile_None)
  then show ?thesis by blast
qed

section \<open>Facts about the update step\<close>

lemma and_then_Returned: "and_then (Returned u s) f = f s"
  by (simp add: and_then_def)

lemma and_then_Raised: "and_then (Raised e s) f = Raised e s"
  by (simp add: and_then_def)

lemma and_then_assoc: "and_then (and_then m f) g = and_then m (\<lambda>s. and_then (f s) g)"
  by (cases m) (simp_all add: and_then_def)

lemma and_then_cong_Returned:
  assumes "\<And>u s. m = Returned u s \<Longrightarrow> f s = g s"
  shows "and_then m f = and_then m g"
  using assms by (cases m) (simp_all add: and_then_def)

lemma perform_all_single: "perform_all B [x] s = perform B x s"
  by (cases "perform B x s") (simp_all add: and_then_def)

lemma perform_all_single_fun: "perform_all B [x] = perform B x"
  by (rule ext) (rule perform_all_single)

lemma perform_AdvectOil_fun: "perform B AdvectOil = advect_oil B"
  by (rule ext) simp

lemma perform_all_Cons_fun:
  "perform_all B (x # xs) = (\<lambda>s. and_then (perform B x s) (perform_all B xs))"
  by (rule ext) simp

lemma keeps_config_Returned: "keeps_config f \<Longrightarrow> f s = Returned u s' \<Longrightarrow> config s' = config s"
  unfolding keeps_config_def by (metis state_of.simps(1))

lemma update_terminal_velocity_config:
  "update_terminal_velocity swd Tprofiles Sprofiles z_index s = Returned u s' \<Longrightarrow>
     config s' = config s"
  using update_terminal_velocity_Returned [of swd Tprofiles Sprofiles z_index s s'] by auto

lemma update_eq_perform_all:
  assumes w: "keeps_config (oil_weathering B)" and m: "keeps_config (vertical_mixing B)"
  shows "update B self = perform_all B (step_order (config self)) self"
proof -
  let ?c = "config self"
  let ?utv = "update_terminal_velocity (sea_water_density B) None None None"
  have tail: "and_then
      (if processes_verticaladvection (config s2) = True then vertical_advection B s2
       else Returned () s2) (advect_oil B) =
     perform_all B ((if processes_verticaladvection ?c then [VerticalAdvection] else []) @ [AdvectOil]) s2"
    if "config s2 = ?c" for s2
    using that
    by (simp add: perform_all_single_fun perform_AdvectOil_fun and_then_Returned)
  have mid: "and_then
      (if processes_turbulentmixing (config s1) = True then and_then (?utv s1) (vertical_mixing B)
       else Returned () s1)
      (\<lambda>s2. and_then
         (if processes_verticaladvection (config s2) = True then vertical_advection B s2
          else Returned () s2) (advect_oil B)) =
     perform_all B
       ((if processes_turbulentmixing ?c then [UpdateTerminalVelocity, VerticalMixing] else [])
        @ (if processes_verticaladvection ?c then [VerticalAdvection] else []) @ [AdvectOil]) s1"
    if c1: "config s1 = ?c" for s1
  proof (cases "processes_turbulentmixing ?c")
    case False
    then show ?thesis
      using c1 tail [OF c1] by (simp add: and_then_Returned)
  next
    case True
    have "and_then (and_then (?utv s1) (vertical_mixing B))
        (\<lambda>s2. and_then
           (if processes_verticaladvection (config s2) = True then vertical_advection B s2
            else Returned () s2) (advect_oil B)) =
      and_then (?utv s1) (\<lambda>s. and_then (vertical_mixing B s)
        (perform_all B ((if processes_verticaladvection ?c then [VerticalAdvection] else []) @ [AdvectOil])))"
      unfolding and_then_assoc
    proof (rule and_then_cong_Returned)
      fix u s assume r: "?utv s1 = Returned u s"
      then have cs: "config s = ?c"
        using update_terminal_velocity_config c1 by metis
      show "and_then (vertical_mixing B s)
          (\<lambda>s2. and_then
             (if processes_verticaladvection (config s2) = True then vertical_advection B s2
              else Returned () s2) (advect_oil B)) =
        and_then (vertical_mixing B s)
          (perform_all B ((if processes_verticaladvection ?c then [VerticalAdvection] else []) @ [AdvectOil]))"
      proof (rule and_then_cong_Returned)
        fix u' s2 assume "vertical_mixing B s = Returned u' s2"
        then have "config s2 = ?c"
          using keeps_config_Returned [OF m] cs by metis
        then show "and_then
             (if processes_verticaladvection (config s2) = True then vertical_advection B s2
              else Returned () s2) (advect_oil B) =
          perform_all B ((if processes_verticaladvection ?c then [VerticalAdvection] else []) @ [AdvectOil]) s2"
          by (rule tail)
      qed
    qed
    then show ?thesis
      using True c1 by (simp add: perform_all_Cons_fun)
  qed
  have "update B self = and_then (oil_weathering B self)
      (perform_all B
       ((if processes_turbulentmixing ?c then [UpdateTerminalVelocity, VerticalMixing] else [])
        @ (if processes_verticaladvection ?c then [VerticalAdvection] else []) @ [AdvectOil]))"
    unfolding update_def
  proof (rule and_then_cong_Returned)
    fix u s1 assume "oil_weathering B self = Returned u s1"
    then have "config s1 = ?c"
      using keeps_config_Returned [OF w] by metis
    then show "and_then
      (if processes_turbulentmixing (config s1) = True then and_then (?utv s1) (vertical_mixing B)
       else Returned () s1)
      (\<lambda>s2. and_then
         (if processes_verticaladvection (config s2) = True then vertical_advection B s2
          else Returned () s2) (advect_oil B)) =
     perform_all B
       ((if processes_turbulentmixing ?c then [UpdateTerminalVelocity, VerticalMixing] else [])
        @ (if processes_verticaladvection ?c then [VerticalAdvection] else []) @ [AdvectOil]) s1"
      by (rule mid)
  qed
  then show ?thesis
    by (simp add: step_order_def)
qed

section \<open>Required profiles and the fallback policy\<close>

text \<open>
  C8. The variables requested as vertical profiles are exactly sea water temperature,
  sea water salinity and ocean vertical diffusivity; each of them is a required variable;
  the requested depth range is the interval from -120 to 0, which lies at or below the
  surface and ends at it.
\<close>

theorem required_profiles_spec:
  "set required_profiles =
      {''sea_water_temperature'', ''sea_water_salinity'', ''ocean_vertical_diffusivity''}
   \<and> set required_profiles \<subseteq> set required_variables
   \<and> required_profiles_z_range = [-120, 0]
   \<and> hd required_profiles_z_range \<le> last required_profiles_z_range
   \<and> last required_profiles_z_range = 0"
  by (simp add: required_profiles_def required_variables_def required_profiles_z_range_def)

theorem required_profiles_spec_witness:
  "''sea_water_salinity'' \<in> set required_variables \<and> last required_profiles_z_range = 0"
  using required_profiles_spec by (auto simp add: required_profiles_def)

text \<open>
  C3. For a variable of \<open>required_variables\<close> and a query point that no registered reader
  covers, the aggregator returns the variable's entry of the fallback table when there is
  one, and fails with \<open>MissingEnvironmentData\<close> naming the variable when there is none.
  In the table of OpenOil3D every required variable but \<open>land_binary_mask\<close> has an
  entry, and \<open>land_binary_mask\<close> has none.
\<close>

theorem aggregator_fallback_policy:
  assumes "v \<in> set required_variables"
    and "\<forall>r \<in> set readers. \<not> covers r v p t"
  shows "get_point readers fb v p t =
           (case fb v of Some c \<Rightarrow> Inr c | None \<Rightarrow> Inl (MissingEnvironmentData v))
         \<and> (v \<noteq> ''land_binary_mask'' \<longrightarrow> (\<exists>c. fallback_values v = Some c))
         \<and> (v = ''land_binary_mask'' \<longrightarrow>
               get_point readers fallback_values v p t = Inl (MissingEnvironmentData v))"
proof -
  have none: "first_reader_value readers v p t = None"
    using assms(2) by (rule first_reader_value_uncovered)
  have a: "get_point readers fb v p t =
      (case fb v of Some c \<Rightarrow> Inr c | None \<Rightarrow> Inl (MissingEnvironmentData v))" for fb
    by (simp add: get_point_def none)
  have b: "v \<noteq> ''land_binary_mask'' \<longrightarrow> (\<exists>c. fallback_values v = Some c)"
    using assms(1) fallback_defined by blast
  have c: "v = ''land_binary_mask'' \<longrightarrow>
      get_point readers fallback_values v p t = Inl (MissingEnvironmentData v)"
  proof
    assume "v = ''land_binary_mask''"
    then have "fallback_values v = None"
      using fallback_land_binary_mask by simp
    then show "get_point readers fallback_values v p t = Inl (MissingEnvironmentData v)"
      using a [of fallback_values] by simp
  qed
  from a b c show ?thesis by blast
qed

theorem aggregator_fallback_policy_witness:
  "get_point [north_sea_reader] fallback_values ''sea_water_temperature''
      \<lparr>lon = 20, lat = 55, depth = 0\<rparr> 3600 = Inr 10
   \<and> get_point [north_sea_reader] fallback_values ''land_binary_mask''
      \<lparr>lon = 20, lat = 55, depth = 0\<rparr> 3600 = Inl (MissingEnvironmentData ''land_binary_mask'')
   \<and> get_point [north_sea_reader] fallback_values ''land_binary_mask''
      \<lparr>lon = 5, lat = 55, depth = 0\<rparr> 3600 = Inr 7"
proof -
  let ?p = "\<lparr>lon = 20, lat = 55, depth = 0\<rparr>"
  have unc: "\<forall>r \<in> set [north_sea_reader]. \<not> covers r v ?p 3600" for v
    by (simp add: covers_def in_bbox_def north_sea_reader_def)
  have t: "''sea_water_temperature'' \<in> set required_variables"
    by (simp add: required_variables_def)
  have m: "''land_binary_mask'' \<in> set required_variables"
    by (simp add: required_variables_def)
  have ft: "fallback_values ''sea_water_temperature'' = Some 10"
    by (simp add: fallback_values_def fallback_items_def)
  have 1: "get_point [north_sea_reader] fallback_values ''sea_water_temperature'' ?p 3600 = Inr 10"
    using aggregator_fallback_policy [OF t unc, of fallback_values] ft by simp
  have 2: "get_point [north_sea_reader] fallback_values ''land_binary_mask'' ?p 3600
      = Inl (MissingEnvironmentData ''land_binary_mask'')"
    using aggregator_fallback_policy [OF m unc, of fallback_values] by blast
  have 3: "get_point [north_sea_reader] fallback_values ''land_binary_mask''
      \<lparr>lon = 5, lat = 55, depth = 0\<rparr> 3600 = Inr 7"
    by (simp add: get_point_def covers_def in_bbox_def in_interval_def north_sea_reader_def)
  from 1 2 3 show ?thesis by blast
qed


section \<open>Depth after surface interaction and resurfacing\<close>

text \<open>
  C2. When \<open>surface_interaction\<close> returns, an element that was at or above the surface at
  entry is at depth 0 exactly, unless it was entrained, and then it is at minus half the
  configured vertical resolution; with a resolution that is not negative every element
  is at depth 0 or below, and an entrained element is strictly below the surface when the
  resolution is positive. After \<open>resurface_elements\<close> every element is at depth 0 or below,
  and those that were at or above the surface are at 0 exactly.
\<close>

theorem surface_depth_bound:
  "(surface_interaction R self = Returned () self' \<longrightarrow>
      (\<exists>prob. oil_entrainment_probability self = Some prob \<and>
         length (z (elements self')) = length (z (elements self)) \<and>
         (\<forall>i < length (z (elements self)).
            (0 \<le> z (elements self) ! i \<longrightarrow>
               z (elements self') ! i =
                 (if entrained_at R self prob i
                  then - turbulentmixing_verticalresolution (config self) / 2 else 0)) \<and>
            (0 \<le> turbulentmixing_verticalresolution (config self) \<longrightarrow>
               z (elements self') ! i \<le> 0) \<and>
            (0 < turbulentmixing_verticalresolution (config self) \<and> entrained_at R self prob i \<longrightarrow>
               z (elements self') ! i < 0))))
   \<and> length (z (elements (resurface_elements self))) = length (z (elements self))
   \<and> (\<forall>i < length (z (elements self)).
         z (elements (resurface_elements self)) ! i \<le> 0 \<and>
         (0 \<le> z (elements self) ! i \<longrightarrow> z (elements (resurface_elements self)) ! i = 0))"
proof (intro conjI impI)
  assume ret: "surface_interaction R self = Returned () self'"
  let ?res = "turbulentmixing_verticalresolution (config self)"
  from surface_interaction_Returned [OF ret] obtain prob where
    p: "oil_entrainment_probability self = Some prob" by blast
  have each: "(0 \<le> z (elements self) ! i \<longrightarrow>
               z (elements self') ! i = (if entrained_at R self prob i then - ?res / 2 else 0)) \<and>
            (0 \<le> ?res \<longrightarrow> z (elements self') ! i \<le> 0) \<and>
            (0 < ?res \<and> entrained_at R self prob i \<longrightarrow> z (elements self') ! i < 0)"
    if i: "i < length (z (elements self))" for i
    using surface_interaction_Returned_nth [OF ret i] p by auto
  have len: "length (z (elements self')) = length (z (elements self))"
    using surface_interaction_Returned [OF ret]
    by (auto simp add: put_mask_length)
  from p len each
  show "\<exists>prob. oil_entrainment_probability self = Some prob \<and>
         length (z (elements self')) = length (z (elements self)) \<and>
         (\<forall>i < length (z (elements self)).
            (0 \<le> z (elements self) ! i \<longrightarrow>
               z (elements self') ! i =
                 (if entrained_at R self prob i then - ?res / 2 else 0)) \<and>
            (0 \<le> ?res \<longrightarrow> z (elements self') ! i \<le> 0) \<and>
            (0 < ?res \<and> entrained_at R self prob i \<longrightarrow> z (elements self') ! i < 0))"
    by blast
next
  show "length (z (elements (resurface_elements self))) = length (z (elements self))"
    by (simp add: resurface_elements_z)
next
  show "\<forall>i < length (z (elements self)).
         z (elements (resurface_elements self)) ! i \<le> 0 \<and>
         (0 \<le> z (elements self) ! i \<longrightarrow> z (elements (resurface_elements self)) ! i = 0)"
    by (simp add: resurface_elements_z)
qed

theorem surface_depth_bound_witness:
  "z (elements (state_of (surface_interaction counting_rng example_oil))) = [- 1 / 2, - 2, 0, 0]
   \<and> z (elements (state_of (surface_interaction counting_rng example_oil))) ! 0 \<le> 0
   \<and> z (elements (state_of (surface_interaction counting_rng example_oil))) ! 2 = 0
   \<and> z (elements (resurface_elements example_oil)) ! 2 = 0"
proof -
  let ?s = "example_oil\<lparr>elements := (elements example_oil)
            \<lparr>z := [- 1 / 2, - 2, 0, 0], diameter := [2 / 1000, 1 / 100, 1 / 1000, 0]\<rparr>, rng := 4\<rparr>"
  have ret: "surface_interaction counting_rng example_oil = Returned () ?s"
    by (rule example_surface_interaction)
  have z0: "z (elements example_oil) = [0, - 2, 3 / 2, 0]"
    by (simp add: example_oil_def)
  have res: "turbulentmixing_verticalresolution (config example_oil) = 1"
    by (simp add: example_oil_def example_config_def)
  have p: "oil_entrainment_probability example_oil = Some [Finite (1 / 2), Finite (1 / 2), Finite (1 / 2), Finite (1 / 2)]"
    by (simp add: example_oil_def)
  have e2: "\<not> entrained_at counting_rng example_oil [Finite (1 / 2), Finite (1 / 2), Finite (1 / 2), Finite (1 / 2)] 2"
    by (simp add: entrained_at_def example_draws probability_at_def z0)
  from surface_depth_bound [of counting_rng example_oil ?s] ret p
  have a: "\<forall>i < length (z (elements example_oil)).
            (0 \<le> z (elements example_oil) ! i \<longrightarrow>
               z (elements ?s) ! i =
                 (if entrained_at counting_rng example_oil [Finite (1 / 2), Finite (1 / 2), Finite (1 / 2), Finite (1 / 2)] i
                  then - turbulentmixing_verticalresolution (config example_oil) / 2 else 0)) \<and>
            (0 \<le> turbulentmixing_verticalresolution (config example_oil) \<longrightarrow>
               z (elements ?s) ! i \<le> 0)"
    and b: "\<forall>i < length (z (elements example_oil)).
         z (elements (resurface_elements example_oil)) ! i \<le> 0 \<and>
         (0 \<le> z (elements example_oil) ! i \<longrightarrow> z (elements (resurface_elements example_oil)) ! i = 0)"
    by auto
  have 1: "z (elements (state_of (surface_interaction counting_rng example_oil))) ! 0 \<le> 0"
    using a [rule_format, of 0] by (simp add: ret z0 res)
  have 2: "z (elements (state_of (surface_interaction counting_rng example_oil))) ! 2 = 0"
    using a [rule_format, of 2] e2 by (simp add: ret z0 res)
  have 3: "z (elements (resurface_elements example_oil)) ! 2 = 0"
    using b [rule_format, of 2] by (simp add: z0)
  have 0: "z (elements (state_of (surface_interaction counting_rng example_oil))) = [- 1 / 2, - 2, 0, 0]"
    by (simp add: ret)
  from 0 1 2 3 show ?thesis by blast
qed

section \<open>Entrainment and its frame\<close>

text \<open>
  C10. \<open>surface_interaction\<close> leaves the depth and the diameter of every element that is
  strictly below the surface at entry as they were, whether the call returns or raises:
  such an element is never in the entrained set, which lies within the surface set.
\<close>

theorem surface_interaction_subsurface_unchanged:
  assumes "i < length (z (elements self))" and "z (elements self) ! i < 0"
  shows "z (elements (state_of (surface_interaction R self))) ! i = z (elements self) ! i
       \<and> diameter (elements (state_of (surface_interaction R self))) ! i =
           diameter (elements self) ! i
       \<and> \<not> entrained_at R self prob i"
  using surface_interaction_frame [OF assms, of R] assms(2)
  by (simp add: entrained_at_def)

theorem surface_interaction_subsurface_unchanged_witness:
  "z (elements (state_of (surface_interaction counting_rng example_oil))) ! 1 = - 2
   \<and> diameter (elements (state_of (surface_interaction counting_rng example_oil))) ! 1 = 1 / 100"
proof -
  have i: "1 < length (z (elements example_oil))"
    by (simp add: example_oil_def)
  have neg: "z (elements example_oil) ! 1 < 0"
    by (simp add: example_oil_def)
  from surface_interaction_subsurface_unchanged [OF i neg, of counting_rng]
  show ?thesis by (simp add: example_oil_def)
qed

text \<open>
  Entrainment at the surface. When \<open>surface_interaction\<close> returns, an element leaves the
  surface for the water column exactly when it was at or above the surface at entry and
  its uniform draw is strictly below its entrainment probability; an entrained element
  takes the pre-drawn droplet diameter exactly when \<open>keep_droplet_diameter\<close> is false, and
  no diameter changes when it is true. The probability is the entrainment rate times the
  mixing time step, as \<open>prepare_vertical_mixing\<close> stores it together with one pre-drawn
  diameter per element; \<open>seed_elements\<close> sets \<open>keep_droplet_diameter\<close> to whether the caller
  of that call gave a diameter.
\<close>

theorem surface_interaction_entrainment:
  "(surface_interaction R self = Returned () self' \<longrightarrow>
      (\<exists>prob keep.
         oil_entrainment_probability self = Some prob \<and>
         keep_droplet_diameter self = Some keep \<and>
         (keep \<longrightarrow> diameter (elements self') = diameter (elements self)) \<and>
         (\<forall>i < length (z (elements self)).
            z (elements self') ! i =
              (if entrained_at R self prob i
               then - turbulentmixing_verticalresolution (config self) / 2
               else if 0 \<le> z (elements self) ! i then 0 else z (elements self) ! i) \<and>
            (0 < turbulentmixing_verticalresolution (config self) \<longrightarrow>
               (0 \<le> z (elements self) ! i \<and> z (elements self') ! i < 0) =
                 entrained_at R self prob i) \<and>
            (\<not> keep \<longrightarrow>
               (\<exists>d. droplet_diamenter_if_entrained self = Some d \<and>
                  diameter (elements self') ! i =
                    (if entrained_at R self prob i then d ! i
                     else diameter (elements self) ! i))))))
   \<and> (prepare_vertical_mixing R W self = Returned () self'' \<longrightarrow>
        (\<exists>rate d.
           oil_wave_entrainment_rate W self = Inr rate \<and>
           oil_entrainment_probability self'' =
             Some (map (\<lambda>x. np_mul x (Finite (turbulentmixing_timestep (config self)))) rate) \<and>
           droplet_diamenter_if_entrained self'' = Some d \<and>
           length d = length (z (elements self))))
   \<and> (\<exists>kwargs' self1.
         seed_elements R super_seed kwargs self = super_seed kwargs' self1 \<and>
         keep_droplet_diameter self1 = Some (kw_diameter kwargs \<noteq> None))"
proof (intro conjI impI)
  assume ret: "surface_interaction R self = Returned () self'"
  let ?res = "turbulentmixing_verticalresolution (config self)"
  from surface_interaction_Returned [OF ret] obtain prob keep where
    p: "oil_entrainment_probability self = Some prob" and
    k: "keep_droplet_diameter self = Some keep" and
    kd: "keep \<longrightarrow> diameter (elements self') = diameter (elements self)"
    by blast
  have each:
    "z (elements self') ! i =
       (if entrained_at R self prob i then - ?res / 2
        else if 0 \<le> z (elements self) ! i then 0 else z (elements self) ! i) \<and>
     (0 < ?res \<longrightarrow>
        (0 \<le> z (elements self) ! i \<and> z (elements self') ! i < 0) = entrained_at R self prob i) \<and>
     (\<not> keep \<longrightarrow>
        (\<exists>d. droplet_diamenter_if_entrained self = Some d \<and>
           diameter (elements self') ! i =
             (if entrained_at R self prob i then d ! i else diameter (elements self) ! i)))"
    if i: "i < length (z (elements self))" for i
  proof -
    from surface_interaction_Returned_nth [OF ret i] p k
    have zi: "z (elements self') ! i =
       (if entrained_at R self prob i then - ?res / 2
        else if 0 \<le> z (elements self) ! i then 0 else z (elements self) ! i)"
      and di: "\<not> keep \<longrightarrow>
        (\<exists>d. droplet_diamenter_if_entrained self = Some d \<and>
           diameter (elements self') ! i =
             (if entrained_at R self prob i then d ! i else diameter (elements self) ! i))"
      by auto
    have sub: "entrained_at R self prob i \<longrightarrow> 0 \<le> z (elements self) ! i"
      by (simp add: entrained_at_def)
    have iff: "0 < ?res \<longrightarrow>
        (0 \<le> z (elements self) ! i \<and> z (elements self') ! i < 0) = entrained_at R self prob i"
      using zi sub by auto
    from zi iff di show ?thesis by blast
  qed
  from p k kd each
  show "\<exists>prob keep.
         oil_entrainment_probability self = Some prob \<and>
         keep_droplet_diameter self = Some keep \<and>
         (keep \<longrightarrow> diameter (elements self') = diameter (elements self)) \<and>
         (\<forall>i < length (z (elements self)).
            z (elements self') ! i =
              (if entrained_at R self prob i
               then - ?res / 2
               else if 0 \<le> z (elements self) ! i then 0 else z (elements self) ! i) \<and>
            (0 < ?res \<longrightarrow>
               (0 \<le> z (elements self) ! i \<and> z (elements self') ! i < 0) =
                 entrained_at R self prob i) \<and>
            (\<not> keep \<longrightarrow>
               (\<exists>d. droplet_diamenter_if_entrained self = Some d \<and>
                  diameter (elements self') ! i =
                    (if entrained_at R self prob i then d ! i
                     else diameter (elements self) ! i))))"
    by blast
next
  assume "prepare_vertical_mixing R W self = Returned () self''"
  from prepare_vertical_mixing_Returned [OF this]
  show "\<exists>rate d.
           oil_wave_entrainment_rate W self = Inr rate \<and>
           oil_entrainment_probability self'' =
             Some (map (\<lambda>x. np_mul x (Finite (turbulentmixing_timestep (config self)))) rate) \<and>
           droplet_diamenter_if_entrained self'' = Some d \<and>
           length d = length (z (elements self))"
    by blast
next
  show "\<exists>kwargs' self1.
         seed_elements R super_seed kwargs self = super_seed kwargs' self1 \<and>
         keep_droplet_diameter self1 = Some (kw_diameter kwargs \<noteq> None)"
    by (rule seed_elements_flag)
qed


theorem surface_interaction_entrainment_witness:
  "z (elements (state_of (surface_interaction counting_rng example_oil))) ! 0 = - 1 / 2
   \<and> diameter (elements (state_of (surface_interaction counting_rng example_oil))) ! 0 = 2 / 1000
   \<and> z (elements (state_of (surface_interaction counting_rng example_oil))) ! 3 = 0
   \<and> diameter (elements (state_of (surface_interaction counting_rng example_oil))) ! 3 = 0
   \<and> oil_entrainment_probability
        (state_of (prepare_vertical_mixing counting_rng calm_waves example_oil)) =
       Some [Finite 0, Finite 0, Finite 0, Finite 0]"
proof -
  let ?s = "example_oil\<lparr>elements := (elements example_oil)
            \<lparr>z := [- 1 / 2, - 2, 0, 0], diameter := [2 / 1000, 1 / 100, 1 / 1000, 0]\<rparr>, rng := 4\<rparr>"
  have ret: "surface_interaction counting_rng example_oil = Returned () ?s"
    by (rule example_surface_interaction)
  obtain s2 where prep: "prepare_vertical_mixing counting_rng calm_waves example_oil = Returned () s2"
    using example_prepare by blast
  have z0: "z (elements example_oil) = [0, - 2, 3 / 2, 0]"
    by (simp add: example_oil_def)
  have d0: "diameter (elements example_oil) = [1 / 100000, 1 / 100, 1 / 1000, 0]"
    by (simp add: example_oil_def)
  have res: "turbulentmixing_verticalresolution (config example_oil) = 1"
    by (simp add: example_oil_def example_config_def)
  have dt: "turbulentmixing_timestep (config example_oil) = 20"
    by (simp add: example_oil_def example_config_def)
  have p: "oil_entrainment_probability example_oil = Some [Finite (1 / 2), Finite (1 / 2), Finite (1 / 2), Finite (1 / 2)]"
    by (simp add: example_oil_def)
  have k: "keep_droplet_diameter example_oil = Some False"
    by (simp add: example_oil_def)
  have dd: "droplet_diamenter_if_entrained example_oil = Some [2 / 1000, 3 / 1000, 4 / 1000, 5 / 1000]"
    by (simp add: example_oil_def)
  have e0: "entrained_at counting_rng example_oil [Finite (1 / 2), Finite (1 / 2), Finite (1 / 2), Finite (1 / 2)] 0"
    by (simp add: entrained_at_def example_draws probability_at_def z0)
  have e3: "\<not> entrained_at counting_rng example_oil [Finite (1 / 2), Finite (1 / 2), Finite (1 / 2), Finite (1 / 2)] 3"
    by (simp add: entrained_at_def example_draws probability_at_def z0)
  note inst = surface_interaction_entrainment
    [of counting_rng example_oil ?s calm_waves s2 "\<lambda>k s. Returned () s" "\<lparr>kw_number = None, kw_diameter = None, kw_z = None\<rparr>"]
  from inst ret p k dd
  have a: "\<forall>i < length (z (elements example_oil)).
            z (elements ?s) ! i =
              (if entrained_at counting_rng example_oil [Finite (1 / 2), Finite (1 / 2), Finite (1 / 2), Finite (1 / 2)] i
               then - turbulentmixing_verticalresolution (config example_oil) / 2
               else if 0 \<le> z (elements example_oil) ! i then 0 else z (elements example_oil) ! i) \<and>
            diameter (elements ?s) ! i =
               (if entrained_at counting_rng example_oil [Finite (1 / 2), Finite (1 / 2), Finite (1 / 2), Finite (1 / 2)] i
                then [2 / 1000, 3 / 1000, 4 / 1000, 5 / 1000] ! i
                else diameter (elements example_oil) ! i)"
    by auto
  from inst prep example_rate
  have b: "oil_entrainment_probability s2 =
      Some (map (\<lambda>x. np_mul x (Finite (turbulentmixing_timestep (config example_oil))))
              [Finite 0, Finite 0, Finite 0, Finite 0])"
    by auto
  have 1: "z (elements (state_of (surface_interaction counting_rng example_oil))) ! 0 = - 1 / 2"
    using a [rule_format, of 0] e0 by (simp add: ret z0 res)
  have 2: "diameter (elements (state_of (surface_interaction counting_rng example_oil))) ! 0 = 2 / 1000"
    using a [rule_format, of 0] e0 by (simp add: ret z0)
  have 3: "z (elements (state_of (surface_interaction counting_rng example_oil))) ! 3 = 0"
    using a [rule_format, of 3] e3 by (simp add: ret z0)
  have 4: "diameter (elements (state_of (surface_interaction counting_rng example_oil))) ! 3 = 0"
    using a [rule_format, of 3] e3 by (simp add: ret z0 d0)
  have 5: "oil_entrainment_probability
        (state_of (prepare_vertical_mixing counting_rng calm_waves example_oil)) =
       Some [Finite 0, Finite 0, Finite 0, Finite 0]"
    using b by (simp add: prep)
  from 1 2 3 4 5 show ?thesis by blast
qed

text \<open>
  C4. An element is entrained by \<open>surface_interaction\<close> exactly when it is at or above the
  surface at entry and its uniform draw is strictly below the entrainment probability
  that \<open>prepare_vertical_mixing\<close> computed; entrained elements receive the pre-drawn
  diameter exactly when \<open>keep_droplet_diameter\<close> is false; and an element seeded with a
  diameter given by the caller never has its diameter changed. The code departs from the
  last part: \<open>keep_droplet_diameter\<close> is one flag of the object, and every call of
  \<open>seed_elements\<close> sets it anew. After two elements are seeded with the diameter 7 mm and
  two more without a diameter, the flag is false; at the next surface interaction the
  first element is entrained and its diameter of 7 mm is replaced by the pre-drawn 1 mm.
\<close>

theorem later_seeding_overwrites_given_diameter:
  "keep_droplet_diameter seeded_with_diameter = Some True
   \<and> diameter (elements seeded_with_diameter) = [7 / 1000, 7 / 1000]
   \<and> keep_droplet_diameter seeded_again = Some False
   \<and> diameter (elements seeded_again) = [7 / 1000, 7 / 1000, 1 / 100000, 1 / 100000]
   \<and> keep_droplet_diameter mixing_prepared = Some False
   \<and> surface_interaction counting_rng mixing_prepared =
       Returned () (state_of (surface_interaction counting_rng mixing_prepared))
   \<and> diameter (elements (state_of (surface_interaction counting_rng mixing_prepared))) =
       [1 / 1000, 7 / 1000, 1 / 100000, 1 / 100000]"
proof -
  have a: "keep_droplet_diameter seeded_with_diameter = Some True"
    and b: "diameter (elements seeded_with_diameter) = [7 / 1000, 7 / 1000]"
    by (simp_all add: seeded_with_diameter_value)
  have c: "keep_droplet_diameter seeded_again = Some False"
    and d: "diameter (elements seeded_again) = [7 / 1000, 7 / 1000, 1 / 100000, 1 / 100000]"
    by (simp_all add: seeded_again_value)
  have e: "keep_droplet_diameter mixing_prepared = Some False"
    by (rule mixing_prepared_fields)
  have f: "surface_interaction counting_rng mixing_prepared =
       Returned () (state_of (surface_interaction counting_rng mixing_prepared))"
    by (simp add: mixing_prepared_surface_interaction)
  have g: "diameter (elements (state_of (surface_interaction counting_rng mixing_prepared))) =
       [1 / 1000, 7 / 1000, 1 / 100000, 1 / 100000]"
    by (simp add: mixing_prepared_surface_interaction)
  from a b c d e f g show ?thesis by blast
qed

section \<open>The terminal velocity formula and the profile path\<close>

text \<open>
  C6. A call of \<open>update_terminal_velocity\<close> that returns has stored in the attribute
  \<open>terminal_velocity\<close>, for every element with a diameter that is not negative, the
  velocity of the specification: with \<open>r\<close> the diameter (twice the particle radius), the
  low Reynolds number velocity \<open>2 g (1 - rho_oil / rho_water) r\<^sup>2 / (9 nu_water)\<close>,
  replaced by the high Reynolds number velocity
  \<open>sqrt (16 g (1 - rho_oil / rho_water) / 3) sqrt r\<close> exactly when the Reynolds number
  \<open>2 r W / nu_water\<close> exceeds 50. Temperature and salinity are those of the environment
  when no profile is passed. The call without profiles returns whenever the arrays of the
  elements and of the environment have one length.
\<close>

theorem update_terminal_velocity_formula:
  "(update_terminal_velocity swd Tprofiles Sprofiles z_index self = Returned () self' \<longrightarrow>
      (\<exists>interp T0 S0.
         prepare_interpolation Tprofiles Sprofiles z_index self = Inr interp \<and>
         interpolate_profile Tprofiles (sea_water_temperature (environment self)) interp = Inr T0 \<and>
         interpolate_profile Sprofiles (sea_water_salinity (environment self)) interp = Inr S0 \<and>
         (Tprofiles = None \<longrightarrow> T0 = sea_water_temperature (environment self)) \<and>
         (Sprofiles = None \<longrightarrow> S0 = sea_water_salinity (environment self)) \<and>
         (length (density (elements self)) = length (diameter (elements self)) \<and>
          length T0 = length (diameter (elements self)) \<and>
          length S0 = length (diameter (elements self)) \<longrightarrow>
            length (terminal_velocity (elements self')) = length (diameter (elements self)) \<and>
            (\<forall>i < length (diameter (elements self)).
               0 \<le> diameter (elements self) ! i \<longrightarrow>
               terminal_velocity (elements self') ! i =
                 claimed_velocity (density (elements self) ! i) (swd (T0 ! i) (S0 ! i))
                   (nu_water (T0 ! i) (S0 ! i) (swd (T0 ! i) (S0 ! i)))
                   (diameter (elements self) ! i)))))
   \<and> (length (density (elements self)) = length (diameter (elements self)) \<and>
      length (sea_water_temperature (environment self)) = length (diameter (elements self)) \<and>
      length (sea_water_salinity (environment self)) = length (diameter (elements self)) \<longrightarrow>
        (\<exists>s. update_terminal_velocity swd None None None self = Returned () s))
   \<and> map (\<lambda>x. x * 2) (particle_radius self) = diameter (elements self)"
proof (intro conjI impI)
  assume ret: "update_terminal_velocity swd Tprofiles Sprofiles z_index self = Returned () self'"
  let ?n = "length (diameter (elements self))"
  from update_terminal_velocity_Returned [OF ret] obtain interp T0 S0 W where
    pi: "prepare_interpolation Tprofiles Sprofiles z_index self = Inr interp" and
    t0: "interpolate_profile Tprofiles (sea_water_temperature (environment self)) interp = Inr T0" and
    s0: "interpolate_profile Sprofiles (sea_water_salinity (environment self)) interp = Inr S0" and
    tv: "terminal_velocities swd (diameter (elements self)) (density (elements self)) T0 S0 = Inr W" and
    s': "self' = self\<lparr>elements := (elements self)\<lparr>terminal_velocity := W\<rparr>\<rparr>"
    by blast
  have tn: "Tprofiles = None \<longrightarrow> T0 = sea_water_temperature (environment self)"
    using t0 by (auto simp add: interpolate_profile_None)
  have sn: "Sprofiles = None \<longrightarrow> S0 = sea_water_salinity (environment self)"
    using s0 by (auto simp add: interpolate_profile_None)
  have main: "length (terminal_velocity (elements self')) = ?n \<and>
            (\<forall>i < ?n. 0 \<le> diameter (elements self) ! i \<longrightarrow>
               terminal_velocity (elements self') ! i =
                 claimed_velocity (density (elements self) ! i) (swd (T0 ! i) (S0 ! i))
                   (nu_water (T0 ! i) (S0 ! i) (swd (T0 ! i) (S0 ! i)))
                   (diameter (elements self) ! i))"
    if lens: "length (density (elements self)) = ?n \<and> length T0 = ?n \<and> length S0 = ?n"
  proof -
    from lens have o: "length (density (elements self)) = ?n" and t: "length T0 = ?n"
      and s: "length S0 = ?n" by simp_all
    from terminal_velocities_nth [OF refl o t s, of swd] tv
    have lw: "length W = ?n"
      and nth: "\<forall>i < ?n. W ! i =
        (let rho_water = swd (T0 ! i) (S0 ! i);
             ny_w = (1 / 1000 * ((17915 / 10000 - 538 / 10000 * T0 ! i + 7 / 1000 * (T0 ! i) ^ 2)
                        - 23 / 10000 * S0 ! i)) / rho_water;
             rhopr = density (elements self) ! i / rho_water;
             Wl = (2 * (981 / 100) * (1 - rhopr)) / (9 * ny_w) * (diameter (elements self) ! i) ^ 2
         in if 50 < (2 * diameter (elements self) ! i * Wl) / ny_w
            then pow_half (16 * (981 / 100) * (1 - rhopr) / 3) * pow_half (diameter (elements self) ! i)
            else Wl)"
      by auto
    have "W ! i = claimed_velocity (density (elements self) ! i) (swd (T0 ! i) (S0 ! i))
                   (nu_water (T0 ! i) (S0 ! i) (swd (T0 ! i) (S0 ! i)))
                   (diameter (elements self) ! i)"
      if i: "i < ?n" and d: "0 \<le> diameter (elements self) ! i" for i
      using nth [rule_format, OF i]
        source_velocity_eq_claimed [OF d, of "density (elements self) ! i" "swd (T0 ! i) (S0 ! i)"
          "nu_water (T0 ! i) (S0 ! i) (swd (T0 ! i) (S0 ! i))"]
      unfolding Let_def nu_water_def by simp
    with lw show ?thesis by (simp add: s')
  qed
  from pi t0 s0 tn sn main
  show "\<exists>interp T0 S0.
         prepare_interpolation Tprofiles Sprofiles z_index self = Inr interp \<and>
         interpolate_profile Tprofiles (sea_water_temperature (environment self)) interp = Inr T0 \<and>
         interpolate_profile Sprofiles (sea_water_salinity (environment self)) interp = Inr S0 \<and>
         (Tprofiles = None \<longrightarrow> T0 = sea_water_temperature (environment self)) \<and>
         (Sprofiles = None \<longrightarrow> S0 = sea_water_salinity (environment self)) \<and>
         (length (density (elements self)) = ?n \<and> length T0 = ?n \<and> length S0 = ?n \<longrightarrow>
            length (terminal_velocity (elements self')) = ?n \<and>
            (\<forall>i < ?n.
               0 \<le> diameter (elements self) ! i \<longrightarrow>
               terminal_velocity (elements self') ! i =
                 claimed_velocity (density (elements self) ! i) (swd (T0 ! i) (S0 ! i))
                   (nu_water (T0 ! i) (S0 ! i) (swd (T0 ! i) (S0 ! i)))
                   (diameter (elements self) ! i)))"
    by blast
next
  assume "length (density (elements self)) = length (diameter (elements self)) \<and>
      length (sea_water_temperature (environment self)) = length (diameter (elements self)) \<and>
      length (sea_water_salinity (environment self)) = length (diameter (elements self))"
  then show "\<exists>s. update_terminal_velocity swd None None None self = Returned () s"
    using update_terminal_velocity_default [of self swd] by blast
next
  show "map (\<lambda>x. x * 2) (particle_radius self) = diameter (elements self)"
    by (rule twice_particle_radius)
qed

theorem update_terminal_velocity_formula_witness:
  "terminal_velocity (elements (state_of
      (update_terminal_velocity constant_density None None None example_oil))) ! 0 = 109 / 9376500
   \<and> terminal_velocity (elements (state_of
      (update_terminal_velocity constant_density None None None example_oil))) ! 1 =
       sqrt (16 * (981 / 100) * (1 - 900 / 1000) / 3) * sqrt (1 / 100)
   \<and> terminal_velocity (elements (state_of
      (update_terminal_velocity constant_density None None None example_oil))) ! 3 = 0"
proof -
  have d: "diameter (elements example_oil) = [1 / 100000, 1 / 100, 1 / 1000, 0]"
    and o: "density (elements example_oil) = [900, 900, 900, 900]"
    and t: "sea_water_temperature (environment example_oil) = [10, 10, 10, 10]"
    and s: "sea_water_salinity (environment example_oil) = [34, 34, 34, 34]"
    by (simp_all add: example_oil_def)
  have lens: "length (density (elements example_oil)) = length (diameter (elements example_oil)) \<and>
      length (sea_water_temperature (environment example_oil)) = length (diameter (elements example_oil)) \<and>
      length (sea_water_salinity (environment example_oil)) = length (diameter (elements example_oil))"
    by (simp add: d o t s)
  from update_terminal_velocity_formula [of constant_density None None None example_oil] lens
  obtain s1 where ret: "update_terminal_velocity constant_density None None None example_oil =
      Returned () s1"
    by blast
  from update_terminal_velocity_formula [of constant_density None None None example_oil s1] ret lens
  have f: "\<forall>i < length (diameter (elements example_oil)).
               0 \<le> diameter (elements example_oil) ! i \<longrightarrow>
               terminal_velocity (elements s1) ! i =
                 claimed_velocity (density (elements example_oil) ! i)
                   (constant_density (sea_water_temperature (environment example_oil) ! i)
                      (sea_water_salinity (environment example_oil) ! i))
                   (nu_water (sea_water_temperature (environment example_oil) ! i)
                      (sea_water_salinity (environment example_oil) ! i)
                      (constant_density (sea_water_temperature (environment example_oil) ! i)
                         (sea_water_salinity (environment example_oil) ! i)))
                   (diameter (elements example_oil) ! i)"
    by auto
  have nu: "nu_water 10 34 1000 = 18753 / 10000000000"
    by (simp add: nu_water_def)
  have 0: "terminal_velocity (elements s1) ! 0 = 109 / 9376500"
    using f [rule_format, of 0]
    by (simp add: d o t s constant_density_def nu claimed_velocity_def reynolds_number_def
        low_reynolds_velocity_def power2_eq_square)
  have 1: "terminal_velocity (elements s1) ! 1 =
       sqrt (16 * (981 / 100) * (1 - 900 / 1000) / 3) * sqrt (1 / 100)"
    using f [rule_format, of 1]
    by (simp add: d o t s constant_density_def nu claimed_velocity_def reynolds_number_def
        low_reynolds_velocity_def high_reynolds_velocity_def power2_eq_square)
  have 3: "terminal_velocity (elements s1) ! 3 = 0"
    using f [rule_format, of 3]
    by (simp add: d o t s constant_density_def nu claimed_velocity_def reynolds_number_def
        low_reynolds_velocity_def power2_eq_square)
  from 0 1 3 show ?thesis by (simp add: ret)
qed

text \<open>
  C9. A call of \<open>update_terminal_velocity\<close> that passes a temperature or a salinity
  profile and no \<open>z_index\<close> raises before any velocity is computed and leaves the object as
  it was: a \<open>NameError\<close> for \<open>interp1d\<close> when a temperature profile is passed, and an
  \<open>AttributeError\<close> for the shape of \<open>None\<close> when only a salinity profile is passed. Without
  a temperature profile the call raises whatever \<open>z_index\<close> is, so a call with profiles
  returns only when the caller supplies \<open>z_index\<close> and a temperature profile.
\<close>

theorem update_terminal_velocity_without_z_index:
  assumes "Tprofiles \<noteq> None \<or> Sprofiles \<noteq> None"
  shows "(z_index = None \<longrightarrow>
            update_terminal_velocity swd Tprofiles Sprofiles z_index self =
              Raised (if Tprofiles = None then AttributeError ''shape''
                      else NameError ''interp1d'') self)
       \<and> (Tprofiles = None \<longrightarrow>
            update_terminal_velocity swd Tprofiles Sprofiles z_index self =
              Raised (AttributeError ''shape'') self)
       \<and> (\<forall>s. update_terminal_velocity swd Tprofiles Sprofiles z_index self = Returned () s \<longrightarrow>
              z_index \<noteq> None \<and> Tprofiles \<noteq> None)"
proof -
  have a: "z_index = None \<longrightarrow>
            update_terminal_velocity swd Tprofiles Sprofiles z_index self =
              Raised (if Tprofiles = None then AttributeError ''shape''
                      else NameError ''interp1d'') self"
    using prepare_interpolation_no_z_index [OF assms, of self]
    by (auto intro: update_terminal_velocity_prepare_fails)
  have b: "Tprofiles = None \<longrightarrow>
            update_terminal_velocity swd Tprofiles Sprofiles z_index self =
              Raised (AttributeError ''shape'') self"
    using assms prepare_interpolation_no_Tprofiles [of Sprofiles z_index self]
    by (auto intro: update_terminal_velocity_prepare_fails)
  have c: "z_index \<noteq> None \<and> Tprofiles \<noteq> None"
    if ret: "update_terminal_velocity swd Tprofiles Sprofiles z_index self = Returned () s" for s
  proof (intro conjI notI)
    assume "z_index = None"
    with a ret show False by simp
  next
    assume "Tprofiles = None"
    with b ret show False by simp
  qed
  from a b c show ?thesis by blast
qed

theorem update_terminal_velocity_without_z_index_witness:
  "update_terminal_velocity constant_density (Some two_levels) None None example_oil =
     Raised (NameError ''interp1d'') example_oil
   \<and> update_terminal_velocity constant_density (Some two_levels) (Some two_levels) None example_oil =
     Raised (NameError ''interp1d'') example_oil
   \<and> (\<exists>s. update_terminal_velocity constant_density (Some two_levels) None (Some quarter_index)
         example_oil = Returned () s)"
  using update_terminal_velocity_without_z_index
      [of "Some two_levels" None None constant_density example_oil]
    update_terminal_velocity_without_z_index
      [of "Some two_levels" "Some two_levels" None constant_density example_oil]
    example_profile_call
  by simp

theorem update_terminal_velocity_salinity_only_counterexample:
  "update_terminal_velocity constant_density None (Some two_levels) None example_oil =
     Raised (AttributeError ''shape'') example_oil
   \<and> update_terminal_velocity constant_density None (Some two_levels) None example_oil \<noteq>
     Raised (NameError ''interp1d'') example_oil"
  by (simp add: update_terminal_velocity_def Let_def prepare_interpolation_def bindE_def)

section \<open>The order of the update step\<close>

text \<open>
  C1. When oil weathering and vertical mixing leave the configuration as it is,
  \<open>update\<close> performs its sub-operations in the order of the specification: oil weathering
  first; then, only if \<open>processes:turbulentmixing\<close> is true, the terminal velocity update
  immediately followed by vertical mixing; then, only if \<open>processes:verticaladvection\<close>
  is true, vertical advection; horizontal advection last. An option that is off skips its
  own sub-operations and no other, and a sub-operation that raises ends the step.
\<close>

theorem update_order:
  assumes "keeps_config (oil_weathering B)" and "keeps_config (vertical_mixing B)"
  shows "update B self = perform_all B (step_order (config self)) self
       \<and> step_order (config self) =
           (if processes_turbulentmixing (config self) \<and> processes_verticaladvection (config self)
              then [OilWeathering, UpdateTerminalVelocity, VerticalMixing, VerticalAdvection, AdvectOil]
            else if processes_turbulentmixing (config self)
              then [OilWeathering, UpdateTerminalVelocity, VerticalMixing, AdvectOil]
            else if processes_verticaladvection (config self)
              then [OilWeathering, VerticalAdvection, AdvectOil]
            else [OilWeathering, AdvectOil])"
  using update_eq_perform_all [OF assms, of self]
  by (simp add: step_order_def)

theorem update_order_witness:
  "rng (state_of (update logging_methods logged_oil)) = [OilWeathering, VerticalMixing, AdvectOil]
   \<and> (\<exists>W. terminal_velocity (elements (state_of (update logging_methods logged_oil))) = W
          \<and> update_terminal_velocity constant_density None None None
               (logged_oil\<lparr>rng := [OilWeathering]\<rparr>) =
             Returned () (logged_oil\<lparr>rng := [OilWeathering],
                elements := (elements logged_oil)\<lparr>terminal_velocity := W\<rparr>\<rparr>))"
proof -
  let ?s1 = "logged_oil\<lparr>rng := [OilWeathering]\<rparr>"
  have k1: "keeps_config (oil_weathering logging_methods)"
    by (simp add: keeps_config_def logging_methods_def)
  have k2: "keeps_config (vertical_mixing logging_methods)"
    by (simp add: keeps_config_def logging_methods_def)
  have c: "processes_turbulentmixing (config logged_oil)"
    "\<not> processes_verticaladvection (config logged_oil)"
    by (simp_all add: logged_oil_def example_config_def)
  from update_order [OF k1 k2, of logged_oil] c
  have eq: "update logging_methods logged_oil =
      perform_all logging_methods
        [OilWeathering, UpdateTerminalVelocity, VerticalMixing, AdvectOil] logged_oil"
    by simp
  have lens: "length (density (elements ?s1)) = length (diameter (elements ?s1))"
    "length (sea_water_temperature (environment ?s1)) = length (diameter (elements ?s1))"
    "length (sea_water_salinity (environment ?s1)) = length (diameter (elements ?s1))"
    by (simp_all add: logged_oil_def example_oil_def)
  from update_terminal_velocity_default [OF lens, of constant_density]
  obtain W where utv: "update_terminal_velocity constant_density None None None ?s1 =
      Returned () (?s1\<lparr>elements := (elements ?s1)\<lparr>terminal_velocity := W\<rparr>\<rparr>)"
    by blast
  have swd: "sea_water_density logging_methods = constant_density"
    by (simp add: logging_methods_def)
  have ow: "oil_weathering logging_methods logged_oil = Returned () ?s1"
    by (simp add: logging_methods_def logged_oil_def)
  have vm: "vertical_mixing logging_methods s = Returned () (s\<lparr>rng := rng s @ [VerticalMixing]\<rparr>)"
    for s by (simp add: logging_methods_def)
  have ao: "advect_oil logging_methods s = Returned () (s\<lparr>rng := rng s @ [AdvectOil]\<rparr>)"
    for s by (simp add: logging_methods_def)
  have run: "update logging_methods logged_oil =
      Returned () (logged_oil\<lparr>rng := [OilWeathering, VerticalMixing, AdvectOil],
         elements := (elements logged_oil)\<lparr>terminal_velocity := W\<rparr>\<rparr>)"
    unfolding eq
    by (simp add: and_then_def ow swd utv vm ao)
  have "update_terminal_velocity constant_density None None None ?s1 =
             Returned () (logged_oil\<lparr>rng := [OilWeathering],
                elements := (elements logged_oil)\<lparr>terminal_velocity := W\<rparr>\<rparr>)"
    using utv by simp
  with run show ?thesis by simp
qed

end
